theory Spec2Isabelle
  imports Complex_Main
begin

section \<open>Tensors and errors\<close>

text \<open>
  The program is \<^verbatim>\<open>sampnn/message.py\<close>: a message-passing network built from
  \<^verbatim>\<open>torch\<close> and \<^verbatim>\<open>torch_scatter\<close> calls. A two-dimensional tensor is a list of
  rows; a column tensor of shape \<open>(R, 1)\<close> (gate logits, weights) is a list of scalars.
  Arithmetic is exact real arithmetic: rounding, overflow and the propagation of
  \<open>inf\<close>/\<open>nan\<close> are not followed. The one place where the real-valued reading of the
  source would be undefined, a division by zero, ends the modelled run with the outcome
  \<open>NonFinite\<close> (torch does not raise there, it returns \<open>inf\<close> or \<open>nan\<close> entries).
  Index tensors hold natural numbers. An empty batch is the empty list and carries no
  width.
\<close>

type_synonym row = "real list"
type_synonym matrix = "real list list"

datatype error =
  AssertionError | RuntimeError | IndexError | AttributeError | ValueError | NonFinite

datatype tensor = Vec "real list" | Mat "real list list"

definition ebind :: "error + 'a \<Rightarrow> ('a \<Rightarrow> error + 'b) \<Rightarrow> error + 'b" where
  "ebind m f = (case m of Inl e \<Rightarrow> Inl e | Inr v \<Rightarrow> f v)"

definition width :: "matrix \<Rightarrow> nat" where
  "width m = (case m of [] \<Rightarrow> 0 | r # _ \<Rightarrow> length r)"

definition rect :: "matrix \<Rightarrow> bool" where
  "rect m = list_all (\<lambda>r. length r = width m) m"

section \<open>Scatter reductions and gathers (torch_scatter, tensor indexing)\<close>

text \<open>
  \<^verbatim>\<open>scatter_op(src, index, dim=0)\<close> without \<^verbatim>\<open>dim_size\<close>: the output has
  \<open>index.max() + 1\<close> rows (none for an empty index), starts from the reduction's initial
  value, and row \<open>r\<close> of \<open>src\<close> is combined into output row \<open>index[r]\<close>, in order.
\<close>

definition dim_size :: "nat list \<Rightarrow> nat" where
  "dim_size index = (if index = [] then 0 else Suc (fold max index 0))"

fun scatter_loop :: "('a \<Rightarrow> 'b \<Rightarrow> 'a) \<Rightarrow> 'a list \<Rightarrow> nat list \<Rightarrow> 'b list \<Rightarrow> 'a list" where
  "scatter_loop f out (i # is) (v # vs) = scatter_loop f (out[i := f (out ! i) v]) is vs"
| "scatter_loop f out _ _ = out"

definition vadd :: "row \<Rightarrow> row \<Rightarrow> row" where
  "vadd a b = map2 (+) a b"

definition vmul :: "row \<Rightarrow> row \<Rightarrow> row" where
  "vmul a b = map2 (*) a b"

definition scatter_add :: "matrix \<Rightarrow> nat list \<Rightarrow> error + matrix" where
  "scatter_add src index =
     (if length index = length src
      then Inr (scatter_loop vadd (replicate (dim_size index) (replicate (width src) 0)) index src)
      else Inl RuntimeError)"

definition scatter_add_col :: "real list \<Rightarrow> nat list \<Rightarrow> error + real list" where
  "scatter_add_col src index =
     (if length index = length src
      then Inr (scatter_loop (+) (replicate (dim_size index) 0) index src)
      else Inl RuntimeError)"

definition scatter_mul :: "matrix \<Rightarrow> nat list \<Rightarrow> error + matrix" where
  "scatter_mul src index =
     (if length index = length src
      then Inr (scatter_loop vmul (replicate (dim_size index) (replicate (width src) 1)) index src)
      else Inl RuntimeError)"

definition scatter_mul_col :: "real list \<Rightarrow> nat list \<Rightarrow> error + real list" where
  "scatter_mul_col src index =
     (if length index = length src
      then Inr (scatter_loop (*) (replicate (dim_size index) 1) index src)
      else Inl RuntimeError)"

text \<open>
  \<^verbatim>\<open>scatter_max(src, index, dim=0)[0]\<close>: the running maximum per segment; a segment
  that received no row is reported as 0.
\<close>

definition max_step :: "real option \<Rightarrow> real \<Rightarrow> real option" where
  "max_step acc v = (case acc of None \<Rightarrow> Some v | Some m \<Rightarrow> Some (max m v))"

definition scatter_max_col :: "real list \<Rightarrow> nat list \<Rightarrow> error + real list" where
  "scatter_max_col src index =
     (if length index = length src
      then Inr (map (case_option 0 id)
                  (scatter_loop max_step (replicate (dim_size index) None) index src))
      else Inl RuntimeError)"

text \<open>\<^verbatim>\<open>src[index]\<close> on the first dimension; an index past the last row raises.\<close>

definition gather :: "'a list \<Rightarrow> nat list \<Rightarrow> error + 'a list" where
  "gather src index =
     (if list_all (\<lambda>i. i < length src) index then Inr (map ((!) src) index)
      else Inl IndexError)"

text \<open>
  Elementwise operations between column tensors, and between a column and a matrix
  (the column is broadcast along each row). The operands have one row per row of the
  batch; torch's broadcasting of a one-row operand is outside the data model and is
  reported as a shape error.
\<close>

definition sub_col :: "real list \<Rightarrow> real list \<Rightarrow> error + real list" where
  "sub_col a b = (if length a = length b then Inr (map2 (-) a b) else Inl RuntimeError)"

definition mul_col :: "real list \<Rightarrow> real list \<Rightarrow> error + real list" where
  "mul_col a b = (if length a = length b then Inr (map2 (*) a b) else Inl RuntimeError)"

definition div_col :: "real list \<Rightarrow> real list \<Rightarrow> error + real list" where
  "div_col a b =
     (if length a = length b
      then (if list_ex (\<lambda>d. d = 0) b then Inl NonFinite else Inr (map2 (/) a b))
      else Inl RuntimeError)"

definition mul_rows :: "real list \<Rightarrow> matrix \<Rightarrow> error + matrix" where
  "mul_rows c x =
     (if length c = length x then Inr (map2 (\<lambda>a r. map ((*) a) r) c x)
      else Inl RuntimeError)"

definition div_rows :: "matrix \<Rightarrow> real list \<Rightarrow> error + matrix" where
  "div_rows x c =
     (if length c = length x
      then (if list_ex (\<lambda>d. d = 0) c then Inl NonFinite
            else Inr (map2 (\<lambda>r a. map (\<lambda>v. v / a) r) x c))
      else Inl RuntimeError)"

section \<open>GlobalAttention\<close>

text \<open>
  \<^verbatim>\<open>gate_nn\<close> is a module supplied by the caller: any function from the batch to the
  flattened tensor \<^verbatim>\<open>gate_nn(x).view(-1, 1)\<close>, which may raise.
\<close>

type_synonym gate_nn = "matrix \<Rightarrow> error + real list"

definition unsqueeze_if_1d :: "tensor \<Rightarrow> matrix" where
  "unsqueeze_if_1d t = (case t of Vec v \<Rightarrow> map (\<lambda>a. [a]) v | Mat m \<Rightarrow> m)"

definition eps :: real where
  "eps = 1 / 10 ^ 13"

text \<open>Lines 230 to 235 of \<^verbatim>\<open>GlobalAttention.forward\<close>: the attention coefficients.\<close>

definition attention_coeff :: "gate_nn \<Rightarrow> matrix \<Rightarrow> nat list \<Rightarrow> real list \<Rightarrow> error + real list" where
  "attention_coeff gate_nn x index weights =
     ebind (gate_nn x) (\<lambda>gate0.
       if length gate0 = length x then
         ebind (scatter_max_col gate0 index) (\<lambda>mx.
         ebind (gather mx index) (\<lambda>mxi.
         ebind (sub_col gate0 mxi) (\<lambda>gate1.
         ebind (mul_col weights (map exp gate1)) (\<lambda>gate2.
         ebind (scatter_add_col gate2 index) (\<lambda>sm.
         ebind (gather sm index) (\<lambda>smi.
         div_col gate2 (map (\<lambda>a. a + eps) smi)))))))
       else Inl AssertionError)"

definition GlobalAttention_forward :: "gate_nn \<Rightarrow> tensor \<Rightarrow> nat list \<Rightarrow> real list \<Rightarrow> error + matrix" where
  "GlobalAttention_forward gate_nn x0 index weights =
     (let x = unsqueeze_if_1d x0 in
      ebind (attention_coeff gate_nn x index weights) (\<lambda>gate.
      ebind (mul_rows gate x) (\<lambda>gx.
      scatter_add gx index)))"

section \<open>WeightedMeanPooling\<close>

text \<open>
  \<^verbatim>\<open>weights.unsqueeze(-1)\<close> turns a one-dimensional weight tensor into the column that
  the model already uses, so both shapes are the same list here.
\<close>

definition WeightedMeanPooling_forward :: "matrix \<Rightarrow> nat list \<Rightarrow> real list \<Rightarrow> error + matrix" where
  "WeightedMeanPooling_forward x index weights =
     ebind (mul_rows weights x) (\<lambda>wx.
     ebind (scatter_mul wx index) (\<lambda>num.
     ebind (scatter_mul_col weights index) (\<lambda>den.
     div_rows num den)))"

section \<open>The torch modules used by MessageLayer\<close>

text \<open>\<^verbatim>\<open>nn.Linear(in_features, out_features)\<close>: \<open>y = x W\<^sup>T + b\<close> on every row.\<close>

record linear =
  in_features :: nat
  weight :: matrix
  bias :: row

definition dot :: "row \<Rightarrow> row \<Rightarrow> real" where
  "dot a b = sum_list (map2 (*) a b)"

definition Linear_row :: "linear \<Rightarrow> row \<Rightarrow> row" where
  "Linear_row L r = map2 (+) (map (\<lambda>w. dot w r) (weight L)) (bias L)"

definition Linear_forward :: "linear \<Rightarrow> matrix \<Rightarrow> error + matrix" where
  "Linear_forward L x =
     (if list_all (\<lambda>r. length r = in_features L) x then Inr (map (Linear_row L) x)
      else Inl RuntimeError)"

text \<open>
  \<^verbatim>\<open>nn.BatchNorm1d(num_features)\<close> with its defaults (\<open>eps = 1e-5\<close>, affine, running
  statistics tracked). In training mode the batch mean and the biased batch variance of
  each column normalise the batch, and a batch of one row is refused; in evaluation mode
  the running statistics are used. The update of the running statistics that a
  training-mode call performs is not read by that call and is left out.
\<close>

record batch_norm =
  num_features :: nat
  bn_weight :: row
  bn_bias :: row
  running_mean :: row
  running_var :: row
  training :: bool

definition bn_eps :: real where
  "bn_eps = 1 / 10 ^ 5"

definition column :: "matrix \<Rightarrow> nat \<Rightarrow> real list" where
  "column x c = map (\<lambda>r. r ! c) x"

definition batch_mean :: "real list \<Rightarrow> real" where
  "batch_mean vs = sum_list vs / real (length vs)"

definition batch_var :: "real list \<Rightarrow> real" where
  "batch_var vs = sum_list (map (\<lambda>v. (v - batch_mean vs) ^ 2) vs) / real (length vs)"

definition normalize1 :: "real \<Rightarrow> real \<Rightarrow> real \<Rightarrow> real \<Rightarrow> real \<Rightarrow> real" where
  "normalize1 m var g b v = (v - m) / sqrt (var + bn_eps) * g + b"

definition bn_rows :: "batch_norm \<Rightarrow> real list \<Rightarrow> real list \<Rightarrow> matrix \<Rightarrow> matrix" where
  "bn_rows bn means vars x =
     map (\<lambda>r. map (\<lambda>c. normalize1 (means ! c) (vars ! c) (bn_weight bn ! c) (bn_bias bn ! c) (r ! c))
                 [0..<num_features bn]) x"

definition BatchNorm1d_forward :: "batch_norm \<Rightarrow> matrix \<Rightarrow> error + matrix" where
  "BatchNorm1d_forward bn x =
     (if list_all (\<lambda>r. length r = num_features bn) x then
        (if training bn then
           (if length x = 1 then Inl ValueError
            else Inr (bn_rows bn (map (\<lambda>c. batch_mean (column x c)) [0..<num_features bn])
                                 (map (\<lambda>c. batch_var (column x c)) [0..<num_features bn]) x))
         else
           (if list_ex (\<lambda>v. v + bn_eps \<le> 0) (running_var bn) then Inl NonFinite
            else Inr (bn_rows bn (running_mean bn) (running_var bn) x)))
      else Inl RuntimeError)"

definition BatchNorm1d_init :: "nat \<Rightarrow> batch_norm" where
  "BatchNorm1d_init n =
     \<lparr>num_features = n, bn_weight = replicate n 1, bn_bias = replicate n 0,
      running_mean = replicate n 0, running_var = replicate n 1, training = True\<rparr>"

definition sigmoid :: "real \<Rightarrow> real" where
  "sigmoid v = 1 / (1 + exp (- v))"

definition elu :: "real \<Rightarrow> real" where
  "elu v = (if 0 < v then v else exp v - 1)"

definition cat3 :: "matrix \<Rightarrow> matrix \<Rightarrow> matrix \<Rightarrow> error + matrix" where
  "cat3 a b c =
     (if length a = length b \<and> length b = length c
      then Inr (map2 (@) a (map2 (@) b c)) else Inl RuntimeError)"

definition mul_mat :: "matrix \<Rightarrow> matrix \<Rightarrow> error + matrix" where
  "mul_mat a b =
     (if length a = length b \<and> list_all2 (\<lambda>r s. length r = length s) a b
      then Inr (map2 vmul a b) else Inl RuntimeError)"

section \<open>MessageLayer\<close>

text \<open>
  The parameters of the two linear maps are drawn at random by torch; the constructor of
  the model receives the drawn modules. \<open>pooling_gate\<close> is the gate network of the
  layer's \<^verbatim>\<open>GlobalAttention\<close>; \<open>atom_weights\<close> is the column tensor of shape \<open>(N, 1)\<close>.
\<close>

record message_layer =
  atom_fea_len :: nat
  nbr_fea_len :: nat
  filter_msg :: linear
  filter_bn :: batch_norm
  core_msg :: linear
  core_bn :: batch_norm
  pooling_gate :: gate_nn

definition MessageLayer_init :: "nat \<Rightarrow> nat \<Rightarrow> gate_nn \<Rightarrow> linear \<Rightarrow> linear \<Rightarrow> message_layer" where
  "MessageLayer_init afl nfl atom_gate fm cm =
     \<lparr>atom_fea_len = afl, nbr_fea_len = nfl,
      filter_msg = fm, filter_bn = BatchNorm1d_init afl,
      core_msg = cm, core_bn = BatchNorm1d_init afl,
      pooling_gate = atom_gate\<rparr>"

definition nbr_message :: "message_layer \<Rightarrow> matrix \<Rightarrow> error + matrix" where
  "nbr_message L total_fea =
     ebind (Linear_forward (filter_msg L) total_fea) (\<lambda>f1.
     ebind (BatchNorm1d_forward (filter_bn L) f1) (\<lambda>f2.
     ebind (Linear_forward (core_msg L) total_fea) (\<lambda>c1.
     ebind (BatchNorm1d_forward (core_bn L) c1) (\<lambda>c2.
     mul_mat (map (map sigmoid) f2) (map (map elu) c2)))))"

definition MessageLayer_forward ::
  "message_layer \<Rightarrow> real list \<Rightarrow> matrix \<Rightarrow> matrix \<Rightarrow> nat list \<Rightarrow> nat list \<Rightarrow> error + matrix" where
  "MessageLayer_forward L atom_weights atom_in_fea bond_nbr_fea self_fea_idx nbr_fea_idx =
     ebind (gather atom_weights nbr_fea_idx) (\<lambda>atom_nbr_weights.
     ebind (gather atom_in_fea nbr_fea_idx) (\<lambda>atom_nbr_fea.
     ebind (gather atom_in_fea self_fea_idx) (\<lambda>atom_self_fea.
     ebind (cat3 atom_self_fea atom_nbr_fea bond_nbr_fea) (\<lambda>total_fea.
     ebind (nbr_message L total_fea) (\<lambda>msg.
     GlobalAttention_forward (pooling_gate L) (Mat msg) self_fea_idx atom_nbr_weights)))))"

section \<open>CompositionNet\<close>

text \<open>
  \<^verbatim>\<open>output_nn\<close> is a module supplied by the caller, or Python's \<^verbatim>\<open>None\<close>. A module is
  a function with a truth value (a torch module is true unless it is an empty container).
  The constructor assigns the attribute \<^verbatim>\<open>self.output_nn\<close> only under
  \<^verbatim>\<open>if output_nn:\<close>; the field \<open>output_nn\<close> of the record is \<open>None\<close> when the
  attribute was never assigned, and reading a missing attribute of a torch module raises
  \<^verbatim>\<open>AttributeError\<close>.
\<close>

datatype pymodule = Module (call: "matrix \<Rightarrow> error + matrix") (truthy: bool)

record composition_net =
  embedding :: linear
  graphs :: "message_layer list"
  crys_gate :: gate_nn
  output_nn :: "pymodule option"

definition CompositionNet_init ::
  "linear \<Rightarrow> nat \<Rightarrow> gate_nn \<Rightarrow> gate_nn \<Rightarrow> nat \<Rightarrow> (linear \<times> linear) list \<Rightarrow> pymodule option
     \<Rightarrow> composition_net" where
  "CompositionNet_init emb nfl atom_gate cgate afl drawn out_nn =
     \<lparr>embedding = emb,
      graphs = map (\<lambda>(fm, cm). MessageLayer_init afl nfl atom_gate fm cm) drawn,
      crys_gate = cgate,
      output_nn = (case out_nn of None \<Rightarrow> None
                   | Some m \<Rightarrow> if truthy m then Some m else None)\<rparr>"

fun graph_loop ::
  "message_layer list \<Rightarrow> real list \<Rightarrow> matrix \<Rightarrow> matrix \<Rightarrow> nat list \<Rightarrow> nat list \<Rightarrow> error + matrix" where
  "graph_loop [] atom_weights atom_fea nbr_fea self_fea_idx nbr_fea_idx = Inr atom_fea"
| "graph_loop (graph_func # rest) atom_weights atom_fea nbr_fea self_fea_idx nbr_fea_idx =
     ebind (MessageLayer_forward graph_func atom_weights atom_fea nbr_fea self_fea_idx nbr_fea_idx)
       (\<lambda>atom_fea'. graph_loop rest atom_weights atom_fea' nbr_fea self_fea_idx nbr_fea_idx)"

definition crys_fea_of ::
  "composition_net \<Rightarrow> real list \<Rightarrow> matrix \<Rightarrow> matrix \<Rightarrow> nat list \<Rightarrow> nat list \<Rightarrow> nat list
     \<Rightarrow> error + matrix" where
  "crys_fea_of net atom_weights orig_atom_fea nbr_fea self_fea_idx nbr_fea_idx crystal_atom_idx =
     ebind (Linear_forward (embedding net) orig_atom_fea) (\<lambda>atom_fea0.
     ebind (graph_loop (graphs net) atom_weights atom_fea0 nbr_fea self_fea_idx nbr_fea_idx)
       (\<lambda>atom_fea.
     GlobalAttention_forward (crys_gate net) (Mat atom_fea) crystal_atom_idx atom_weights))"

definition CompositionNet_forward ::
  "composition_net \<Rightarrow> real list \<Rightarrow> matrix \<Rightarrow> matrix \<Rightarrow> nat list \<Rightarrow> nat list \<Rightarrow> nat list
     \<Rightarrow> error + matrix" where
  "CompositionNet_forward net atom_weights orig_atom_fea nbr_fea self_fea_idx nbr_fea_idx
       crystal_atom_idx =
     ebind (crys_fea_of net atom_weights orig_atom_fea nbr_fea self_fea_idx nbr_fea_idx
              crystal_atom_idx) (\<lambda>crys_fea.
     case output_nn net of
       None \<Rightarrow> Inl AttributeError
     | Some m \<Rightarrow> if truthy m then call m crys_fea else Inr crys_fea)"

section \<open>The pooling formula in the words of the specification\<close>

text \<open>
  \<open>seg index s\<close> lists the rows \<open>r\<close> with \<open>index[r] = s\<close>. The definitions below follow
  the specification of the attention pooling step by step: segment maximum, stabilised
  and weighted exponential, guarded normalisation, weighted sum.
\<close>

definition seg :: "nat list \<Rightarrow> nat \<Rightarrow> nat list" where
  "seg index s = filter (\<lambda>r. index ! r = s) [0..<length index]"

definition spec_max :: "real list \<Rightarrow> nat list \<Rightarrow> nat \<Rightarrow> real" where
  "spec_max g index s = Max (set (map ((!) g) (seg index s)))"

definition spec_unnorm :: "real list \<Rightarrow> real list \<Rightarrow> nat list \<Rightarrow> nat \<Rightarrow> real" where
  "spec_unnorm weights g index r = weights ! r * exp (g ! r - spec_max g index (index ! r))"

definition spec_denom :: "real list \<Rightarrow> real list \<Rightarrow> nat list \<Rightarrow> nat \<Rightarrow> real" where
  "spec_denom weights g index s =
     sum_list (map (spec_unnorm weights g index) (seg index s)) + 1 / 10 ^ 13"

definition spec_coeff :: "real list \<Rightarrow> real list \<Rightarrow> nat list \<Rightarrow> nat \<Rightarrow> real" where
  "spec_coeff weights g index r =
     spec_unnorm weights g index r / spec_denom weights g index (index ! r)"

definition spec_out :: "matrix \<Rightarrow> real list \<Rightarrow> real list \<Rightarrow> nat list \<Rightarrow> nat \<Rightarrow> row" where
  "spec_out x weights g index s =
     map (\<lambda>k. sum_list (map (\<lambda>r. spec_coeff weights g index r * x ! r ! k) (seg index s)))
       [0..<width x]"

section \<open>Quantities named in the properties\<close>

text \<open>
  What a call returned: the number of rows, whether a row exists, and a row. The sum of
  the coefficients of a segment, and the segment's sum of stabilised weighted
  exponentials. The coefficient of the weighted mean with the \<open>1e-13\<close> guard.
\<close>

definition rows_returned :: "error + matrix \<Rightarrow> nat option" where
  "rows_returned res = (case res of Inl e \<Rightarrow> None | Inr out \<Rightarrow> Some (length out))"

definition has_row :: "error + matrix \<Rightarrow> nat \<Rightarrow> bool" where
  "has_row res s = (case res of Inl e \<Rightarrow> False | Inr out \<Rightarrow> s < length out)"

definition row_of :: "error + matrix \<Rightarrow> nat \<Rightarrow> row option" where
  "row_of res s = (case res of Inl e \<Rightarrow> None
                   | Inr out \<Rightarrow> if s < length out then Some (out ! s) else None)"



definition weighted_mean_coeff :: "real list \<Rightarrow> nat list \<Rightarrow> nat \<Rightarrow> real" where
  "weighted_mean_coeff weights index r =
     weights ! r / (sum_list (map ((!) weights) (seg index (index ! r))) + 1 / 10 ^ 13)"

definition uniform :: "nat \<Rightarrow> matrix \<Rightarrow> bool" where
  "uniform k m = list_all (\<lambda>r. length r = k) m"

section \<open>Gate networks\<close>

text \<open>
  A gate network that scores every row on its own, such as a linear layer:
  \<open>rowwise sum_list\<close> is the linear gate with unit weights and no bias, and
  \<open>const_gate c\<close> the one with zero weights and bias \<open>c\<close>. \<open>shifted c gate_nn\<close> adds
  \<open>c\<close> to every logit of \<open>gate_nn\<close>.
\<close>

definition rowwise :: "(row \<Rightarrow> real) \<Rightarrow> gate_nn" where
  "rowwise f x = Inr (map f x)"

definition const_gate :: "real \<Rightarrow> gate_nn" where
  "const_gate c x = Inr (map (\<lambda>r. c) x)"

definition shifted :: "real \<Rightarrow> gate_nn \<Rightarrow> gate_nn" where
  "shifted c gate_nn x = ebind (gate_nn x) (\<lambda>g. Inr (map (\<lambda>v. v + c) g))"

section \<open>Evaluation mode\<close>

text \<open>
  \<^verbatim>\<open>net.eval()\<close> clears the training flag of every normalisation of the network. In
  evaluation mode a normalisation maps each row by \<open>bn_row\<close>, and a message layer maps
  each concatenated bond row to its message by \<open>msg_row\<close>. \<open>rowwise_gates\<close> and
  \<open>rowwise_output\<close> say that the modules supplied by the caller act on each row on its
  own.
\<close>

definition BatchNorm1d_eval :: "batch_norm \<Rightarrow> batch_norm" where
  "BatchNorm1d_eval bn = bn\<lparr>training := False\<rparr>"

definition MessageLayer_eval :: "message_layer \<Rightarrow> message_layer" where
  "MessageLayer_eval L =
     L\<lparr>filter_bn := BatchNorm1d_eval (filter_bn L), core_bn := BatchNorm1d_eval (core_bn L)\<rparr>"

definition CompositionNet_eval :: "composition_net \<Rightarrow> composition_net" where
  "CompositionNet_eval net = net\<lparr>graphs := map MessageLayer_eval (graphs net)\<rparr>"

definition eval_mode :: "composition_net \<Rightarrow> bool" where
  "eval_mode net =
     list_all (\<lambda>L. \<not> training (filter_bn L) \<and> \<not> training (core_bn L)) (graphs net)"

definition rowwise_gates :: "composition_net \<Rightarrow> bool" where
  "rowwise_gates net =
     (list_all (\<lambda>L. \<exists>f. pooling_gate L = rowwise f) (graphs net) \<and>
      (\<exists>f. crys_gate net = rowwise f))"

definition rowwise_output :: "composition_net \<Rightarrow> bool" where
  "rowwise_output net = (\<exists>m h. output_nn net = Some m \<and> call m = (\<lambda>x. Inr (map h x)))"

definition bn_row :: "batch_norm \<Rightarrow> row \<Rightarrow> row" where
  "bn_row bn r =
     map (\<lambda>c. normalize1 (running_mean bn ! c) (running_var bn ! c) (bn_weight bn ! c)
                 (bn_bias bn ! c) (r ! c)) [0..<num_features bn]"

definition msg_row :: "message_layer \<Rightarrow> row \<Rightarrow> row" where
  "msg_row L r =
     vmul (map sigmoid (bn_row (filter_bn L) (Linear_row (filter_msg L) r)))
          (map elu (bn_row (core_bn L) (Linear_row (core_msg L) r)))"

section \<open>An example network\<close>

text \<open>
  One atom feature, one bond feature, one message layer: the embedding is the identity,
  the filter reads the bond feature, the core reads the feature of the owning atom
  (\<open>example_core\<close>) or of the neighbour (\<open>example_core_nbr\<close>), both gates are constant
  and the normalisations are as torch constructs them, in training mode.
\<close>

definition example_embedding :: linear where
  "example_embedding = \<lparr>in_features = 1, weight = [[1]], bias = [0]\<rparr>"

definition example_filter :: linear where
  "example_filter = \<lparr>in_features = 3, weight = [[0, 0, 1]], bias = [0]\<rparr>"

definition example_core :: linear where
  "example_core = \<lparr>in_features = 3, weight = [[1, 0, 0]], bias = [0]\<rparr>"

definition example_core_nbr :: linear where
  "example_core_nbr = \<lparr>in_features = 3, weight = [[0, 1, 0]], bias = [0]\<rparr>"

definition identity_module :: pymodule where
  "identity_module = Module Inr True"

definition example_net :: "pymodule option \<Rightarrow> composition_net" where
  "example_net out_nn =
     CompositionNet_init example_embedding 1 (const_gate 0) (const_gate 0) 1
       [(example_filter, example_core)] out_nn"

definition example_net_nbr :: composition_net where
  "example_net_nbr =
     CompositionNet_init example_embedding 1 (const_gate 0) (const_gate 0) 1
       [(example_filter, example_core_nbr)] (Some identity_module)"

section \<open>Scatter reductions in closed form\<close>

lemma scatter_loop_length: "length (scatter_loop f out is vs) = length out"
  by (induction f out "is" vs rule: scatter_loop.induct) simp_all

lemma scatter_loop_nth_zip:
  "length is = length vs \<Longrightarrow> s < length out \<Longrightarrow>
   scatter_loop f out is vs ! s =
     fold (\<lambda>v a. f a v) (map snd (filter (\<lambda>p. fst p = s) (zip is vs))) (out ! s)"
proof (induction "is" vs arbitrary: out rule: list_induct2)
  case Nil
  then show ?case by simp
next
  case (Cons i "is" v vs)
  then show ?case by (cases "i = s") simp_all
qed

lemma zip_as_map_upt:
  "length is = length vs \<Longrightarrow> zip is vs = map (\<lambda>r. (is ! r, vs ! r)) [0..<length is]"
  by (rule nth_equalityI) simp_all

lemma seg_values:
  "length is = length vs \<Longrightarrow>
   map snd (filter (\<lambda>p. fst p = s) (zip is vs)) = map ((!) vs) (seg is s)"
  by (simp add: zip_as_map_upt seg_def filter_map comp_def)

lemma scatter_loop_nth:
  "length is = length vs \<Longrightarrow> s < length out \<Longrightarrow>
   scatter_loop f out is vs ! s = fold (\<lambda>r a. f a (vs ! r)) (seg is s) (out ! s)"
  by (simp add: scatter_loop_nth_zip seg_values fold_map comp_def)

lemma seg_member: "r \<in> set (seg index s) \<longleftrightarrow> r < length index \<and> index ! r = s"
  by (auto simp: seg_def)

lemma seg_self: "r < length index \<Longrightarrow> r \<in> set (seg index (index ! r))"
  by (simp add: seg_member)

lemma fold_max_ge: "a \<le> fold max xs (a::nat)"
  by (induction xs arbitrary: a) (auto intro: order_trans[OF max.cobounded2])

lemma fold_max_upper: "x \<in> set xs \<Longrightarrow> x \<le> fold max xs (a::nat)"
proof (induction xs arbitrary: a)
  case (Cons y ys)
  then show ?case
    using fold_max_ge[of "max y a" ys] by auto
qed simp

lemma index_lt_dim_size: "r < length index \<Longrightarrow> index ! r < dim_size index"
  using fold_max_upper[of "index ! r" index 0] by (auto simp: dim_size_def less_Suc_eq_le)

lemma dim_size_Max: "index \<noteq> [] \<Longrightarrow> dim_size index = Suc (Max (set index))"
proof -
  assume ne: "index \<noteq> []"
  have "fold max index 0 = Max (set (0 # index))"
    by (simp only: Max.set_eq_fold)
  also have "\<dots> = Max (set index)"
    using ne by (simp add: max_def)
  finally show ?thesis
    using ne by (simp add: dim_size_def)
qed

lemma fold_add: "fold (\<lambda>r a. a + F r) rs (a0::real) = a0 + sum_list (map F rs)"
  by (induction rs arbitrary: a0) simp_all

lemma fold_mul: "fold (\<lambda>r a. a * F r) rs (a0::real) = a0 * prod_list (map F rs)"
  by (induction rs arbitrary: a0) simp_all

lemma fold_max_step_Some:
  "fold (\<lambda>r a. max_step a (F r)) rs (Some m) = Some (Max (set (m # map F rs)))"
proof (induction rs arbitrary: m)
  case Nil
  show ?case by simp
next
  case (Cons r rs)
  have "Max (insert (max m (F r)) (F ` set rs)) = Max (insert m (insert (F r) (F ` set rs)))"
    by (cases "rs = []") (simp_all add: max.assoc)
  with Cons show ?case by (simp add: max_step_def)
qed

lemma fold_max_step_None:
  assumes "rs \<noteq> []"
  shows "fold (\<lambda>r a. max_step a (F r)) rs None = Some (Max (set (map F rs)))"
proof (cases rs)
  case Nil
  then show ?thesis using assms by simp
next
  case (Cons r rs')
  have "max_step None (F r) = Some (F r)" by (simp add: max_step_def)
  then show ?thesis using Cons by (simp add: fold_max_step_Some)
qed

lemma fold_vadd:
  "length a0 = d \<Longrightarrow> \<forall>r\<in>set rs. length (F r) = d \<Longrightarrow>
   fold (\<lambda>r a. vadd a (F r)) rs a0 =
     map (\<lambda>k. a0 ! k + sum_list (map (\<lambda>r. F r ! k) rs)) [0..<d]"
proof (induction rs arbitrary: a0)
  case Nil
  then show ?case by (simp add: list_eq_iff_nth_eq)
next
  case (Cons r rs)
  have len: "length (vadd a0 (F r)) = d"
    using Cons.prems by (simp add: vadd_def)
  have "fold (\<lambda>r a. vadd a (F r)) (r # rs) a0 = fold (\<lambda>r a. vadd a (F r)) rs (vadd a0 (F r))"
    by simp
  also have "\<dots> = map (\<lambda>k. vadd a0 (F r) ! k + sum_list (map (\<lambda>r. F r ! k) rs)) [0..<d]"
    using Cons.IH[OF len] Cons.prems(2) by simp
  also have "\<dots> = map (\<lambda>k. a0 ! k + sum_list (map (\<lambda>r. F r ! k) (r # rs))) [0..<d]"
    using Cons.prems by (simp add: vadd_def)
  finally show ?case .
qed

lemma scatter_max_col_char:
  assumes "length index = length g"
  shows "\<exists>mx. scatter_max_col g index = Inr mx \<and> length mx = dim_size index \<and>
           (\<forall>r<length index. mx ! (index ! r) = spec_max g index (index ! r))"
proof -
  let ?loop = "scatter_loop max_step (replicate (dim_size index) None) index g"
  let ?mx = "map (case_option 0 id) ?loop"
  have eq: "scatter_max_col g index = Inr ?mx"
    using assms by (simp add: scatter_max_col_def)
  have len: "length ?mx = dim_size index"
    by (simp add: scatter_loop_length)
  have "?mx ! (index ! r) = spec_max g index (index ! r)" if r: "r < length index" for r
  proof -
    have lt: "index ! r < dim_size index" using r by (rule index_lt_dim_size)
    have ne: "seg index (index ! r) \<noteq> []" using seg_self[OF r] by auto
    have "?loop ! (index ! r) = Some (spec_max g index (index ! r))"
      using lt ne assms
      by (simp add: scatter_loop_nth fold_max_step_None spec_max_def)
    then show ?thesis using lt by (simp add: scatter_loop_length)
  qed
  with eq len show ?thesis by blast
qed

lemma map2_upt:
  "map2 f (map a [0..<n]) (map b [0..<n]) = map (\<lambda>r. f (a r) (b r)) [0..<n]"
  by (rule nth_equalityI) simp_all

lemma map2_nth_upt:
  "length xs = n \<Longrightarrow> length ys = n \<Longrightarrow> map2 f xs ys = map (\<lambda>r. f (xs ! r) (ys ! r)) [0..<n]"
  by (rule nth_equalityI) simp_all

lemma gather_segments:
  assumes "length m = dim_size index"
  shows "gather m index = Inr (map (\<lambda>r. m ! (index ! r)) [0..<length index])"
proof -
  have "list_all (\<lambda>i. i < length m) index"
    using assms by (simp add: list_all_length index_lt_dim_size)
  moreover have "map ((!) m) index = map (\<lambda>r. m ! (index ! r)) [0..<length index]"
    by (rule nth_equalityI) simp_all
  ultimately show ?thesis by (simp add: gather_def)
qed

lemma scatter_add_col_char:
  assumes "length index = length v"
  shows "scatter_add_col v index =
     Inr (map (\<lambda>s. sum_list (map ((!) v) (seg index s))) [0..<dim_size index])"
proof -
  let ?loop = "scatter_loop (+) (replicate (dim_size index) 0) index v"
  have "?loop = map (\<lambda>s. sum_list (map ((!) v) (seg index s))) [0..<dim_size index]"
  proof (rule nth_equalityI)
    show "length ?loop = length (map (\<lambda>s. sum_list (map ((!) v) (seg index s))) [0..<dim_size index])"
      by (simp add: scatter_loop_length)
  next
    fix s assume "s < length ?loop"
    then have s: "s < dim_size index" by (simp add: scatter_loop_length)
    then show "?loop ! s = map (\<lambda>s. sum_list (map ((!) v) (seg index s))) [0..<dim_size index] ! s"
      using assms by (simp add: scatter_loop_nth fold_add)
  qed
  then show ?thesis using assms by (simp add: scatter_add_col_def)
qed

lemma seg_map_cong:
  "(\<And>r. r < length index \<Longrightarrow> index ! r = s \<Longrightarrow> F r = G r) \<Longrightarrow>
   map F (seg index s) = map G (seg index s)"
  by (rule map_cong) (simp_all add: seg_member)

lemma attention_coeff_char:
  assumes g: "gate_nn x = Inr g"
    and lg: "length g = length x" and li: "length index = length x"
    and lw: "length weights = length x"
  shows "attention_coeff gate_nn x index weights =
    (if list_ex (\<lambda>r. spec_denom weights g index (index ! r) = 0) [0..<length x]
     then Inl NonFinite
     else Inr (map (spec_coeff weights g index) [0..<length x]))"
proof -
  let ?R = "length x"
  let ?M = "\<lambda>r. spec_max g index (index ! r)"
  let ?U = "spec_unnorm weights g index"
  let ?S = "\<lambda>s. sum_list (map ?U (seg index s))"
  obtain mx where mx: "scatter_max_col g index = Inr mx" "length mx = dim_size index"
    and mxv: "\<And>r. r < length index \<Longrightarrow> mx ! (index ! r) = ?M r"
    using scatter_max_col_char[of index g] li lg by auto
  have mxi: "gather mx index = Inr (map ?M [0..<?R])"
    using gather_segments[OF mx(2)] mxv li by simp
  have g1: "sub_col g (map ?M [0..<?R]) = Inr (map (\<lambda>r. g ! r - ?M r) [0..<?R])"
    using lg by (simp add: sub_col_def map2_nth_upt[where n = ?R])
  have g2: "mul_col weights (map exp (map (\<lambda>r. g ! r - ?M r) [0..<?R])) = Inr (map ?U [0..<?R])"
    using lw by (simp add: mul_col_def map2_nth_upt[where n = ?R] spec_unnorm_def)
  have cong: "map ((!) (map ?U [0..<?R])) (seg index s) = map ?U (seg index s)" for s
    by (rule seg_map_cong) (simp add: li)
  have lu: "length index = length (map ?U [0..<?R])"
    using li by simp
  have sm: "scatter_add_col (map ?U [0..<?R]) index = Inr (map ?S [0..<dim_size index])"
    by (simp only: scatter_add_col_char[OF lu] cong)
  have smi: "gather (map ?S [0..<dim_size index]) index = Inr (map (\<lambda>r. ?S (index ! r)) [0..<?R])"
    using gather_segments[of "map ?S [0..<dim_size index]" index] li
    by (simp add: index_lt_dim_size)
  have den: "map (\<lambda>a. a + eps) (map (\<lambda>r. ?S (index ! r)) [0..<?R]) =
      map (\<lambda>r. spec_denom weights g index (index ! r)) [0..<?R]"
    by (simp add: spec_denom_def eps_def)
  have dv: "div_col (map ?U [0..<?R]) (map (\<lambda>r. spec_denom weights g index (index ! r)) [0..<?R]) =
     (if list_ex (\<lambda>r. spec_denom weights g index (index ! r) = 0) [0..<?R] then Inl NonFinite
      else Inr (map (spec_coeff weights g index) [0..<?R]))"
    by (auto simp add: div_col_def map2_upt spec_coeff_def list_ex_iff)
  show ?thesis
    unfolding attention_coeff_def
    by (simp only: g ebind_def sum.case lg mx mxi g1 g2 sm smi den dv) simp
qed

lemma rect_nth: "rect m \<Longrightarrow> r < length m \<Longrightarrow> length (m ! r) = width m"
  by (simp add: rect_def list_all_length)

lemma scatter_add_char:
  assumes li: "length index = length src" and rc: "rect src"
  shows "scatter_add src index =
     Inr (map (\<lambda>s. map (\<lambda>k. sum_list (map (\<lambda>r. src ! r ! k) (seg index s))) [0..<width src])
            [0..<dim_size index])"
proof -
  let ?d = "width src"
  let ?loop = "scatter_loop vadd (replicate (dim_size index) (replicate ?d 0)) index src"
  let ?row = "\<lambda>s. map (\<lambda>k. sum_list (map (\<lambda>r. src ! r ! k) (seg index s))) [0..<?d]"
  have "?loop = map ?row [0..<dim_size index]"
  proof (rule nth_equalityI)
    show "length ?loop = length (map ?row [0..<dim_size index])"
      by (simp add: scatter_loop_length)
  next
    fix s assume "s < length ?loop"
    then have s: "s < dim_size index" by (simp add: scatter_loop_length)
    have lens: "\<forall>r\<in>set (seg index s). length (src ! r) = ?d"
      using rc li by (simp add: seg_member rect_nth)
    have "?loop ! s = fold (\<lambda>r a. vadd a (src ! r)) (seg index s) (replicate ?d 0)"
      using s li by (simp add: scatter_loop_nth)
    also have "\<dots> = map (\<lambda>k. replicate ?d 0 ! k + sum_list (map (\<lambda>r. src ! r ! k) (seg index s))) [0..<?d]"
      by (rule fold_vadd) (simp_all add: lens)
    also have "\<dots> = ?row s"
      by simp
    finally show "?loop ! s = map ?row [0..<dim_size index] ! s"
      using s by simp
  qed
  then show ?thesis using li by (simp add: scatter_add_def)
qed

lemma mul_rows_char:
  assumes "length c = length x"
  shows "mul_rows c x = Inr (map (\<lambda>r. map ((*) (c ! r)) (x ! r)) [0..<length x])"
  using assms by (simp add: mul_rows_def map2_nth_upt[where n = "length x"])

lemma width_scaled:
  "width (map (\<lambda>r. map (f r) (x ! r)) [0..<length x]) = width x"
proof (cases x)
  case Nil
  then show ?thesis by (simp add: width_def)
next
  case (Cons a as)
  then show ?thesis by (simp add: width_def upt_conv_Cons del: upt_Suc)
qed

lemma rect_scaled:
  "rect x \<Longrightarrow> rect (map (\<lambda>r. map (f r) (x ! r)) [0..<length x])"
  unfolding rect_def width_scaled by (simp add: list_all_length)

lemma GlobalAttention_forward_char:
  assumes g: "gate_nn x = Inr g"
    and lg: "length g = length x" and li: "length index = length x"
    and lw: "length weights = length x" and rc: "rect x"
  shows "GlobalAttention_forward gate_nn (Mat x) index weights =
    (if list_ex (\<lambda>r. spec_denom weights g index (index ! r) = 0) [0..<length x]
     then Inl NonFinite
     else Inr (map (spec_out x weights g index) [0..<dim_size index]))"
proof (cases "list_ex (\<lambda>r. spec_denom weights g index (index ! r) = 0) [0..<length x]")
  note ac = attention_coeff_char[where gate_nn = gate_nn and x = x and g = g, OF g lg li lw]
  case True
  then show ?thesis
    by (simp add: GlobalAttention_forward_def unsqueeze_if_1d_def ac ebind_def)
next
  case False
  let ?c = "spec_coeff weights g index"
  let ?gx = "map (\<lambda>r. map ((*) (?c r)) (x ! r)) [0..<length x]"
  note ac = attention_coeff_char[where gate_nn = gate_nn and x = x and g = g, OF g lg li lw]
  have co: "attention_coeff gate_nn x index weights = Inr (map ?c [0..<length x])"
    using False by (simp add: ac)
  have mr: "mul_rows (map ?c [0..<length x]) x = Inr ?gx"
    using mul_rows_char[of "map ?c [0..<length x]" x]
    by (simp cong: map_cong)
  have lgx: "length index = length ?gx" using li by simp
  have sa: "scatter_add ?gx index = Inr (map (spec_out x weights g index) [0..<dim_size index])"
  proof -
    have inner: "map (\<lambda>r. ?gx ! r ! k) (seg index s) = map (\<lambda>r. ?c r * x ! r ! k) (seg index s)"
      if "k < width x" for k s
      by (rule seg_map_cong) (use that li rc in \<open>simp add: rect_nth\<close>)
    have "map (\<lambda>k. sum_list (map (\<lambda>r. ?gx ! r ! k) (seg index s))) [0..<width x] =
        spec_out x weights g index s" for s
      unfolding spec_out_def by (rule map_cong) (simp_all only: inner atLeastLessThan_iff set_upt)
    then show ?thesis
      using scatter_add_char[OF lgx rect_scaled[OF rc]]
      by (simp only: width_scaled)
  qed
  show ?thesis
    using False
    by (simp add: GlobalAttention_forward_def unsqueeze_if_1d_def co ebind_def mr sa)
qed

section \<open>GlobalAttention computes the specified pooling\<close>

text \<open>
  C1. For a feature matrix \<open>x\<close> with \<open>R\<close> rows, \<open>R\<close> segment ids and \<open>R\<close> weights, with
  \<open>g\<close> the gate logits of the rows, \<^verbatim>\<open>GlobalAttention.forward\<close> returns one row per
  segment id up to the largest one, and row \<open>s\<close> is the sum over the rows \<open>r\<close> of segment
  \<open>s\<close> of \<open>coeff[r] * x[r]\<close>, where \<open>coeff[r]\<close> is \<open>weights[r] * exp (g[r] - segment max)\<close>
  divided by the segment's sum of these terms plus \<open>1e-13\<close>. Where such a denominator is
  zero the quotient does not exist and the run leaves the finite range.
\<close>

theorem GlobalAttention_forward_formula:
  assumes "gate_nn x = Inr g"
    and "length g = length x" and "length index = length x"
    and "length weights = length x" and "rect x"
  shows "GlobalAttention_forward gate_nn (Mat x) index weights =
    (if list_ex (\<lambda>r. spec_denom weights g index (index ! r) = 0) [0..<length x]
     then Inl NonFinite
     else Inr (map (spec_out x weights g index) [0..<dim_size index]))"
  using assms by (rule GlobalAttention_forward_char)

theorem GlobalAttention_forward_formula_witness:
  "rowwise sum_list [[1, 2], [3, 4], [5, 6]] = Inr [3, 7, 11] \<and>
   rect [[1, 2], [3, 4], [5, 6]] \<and>
   GlobalAttention_forward (rowwise sum_list) (Mat [[1, 2], [3, 4], [5, 6]]) [0, 0, 2] [1, 2, 1] =
    (if list_ex (\<lambda>r. spec_denom [1, 2, 1] [3, 7, 11] [0, 0, 2] ([0, 0, 2] ! r) = 0)
          [0..<length [[1, 2], [3, 4], [5, 6 :: real]]]
     then Inl NonFinite
     else Inr (map (spec_out [[1, 2], [3, 4], [5, 6]] [1, 2, 1] [3, 7, 11] [0, 0, 2])
                 [0..<dim_size [0, 0, 2]]))"
  using GlobalAttention_forward_formula
    [of "rowwise sum_list" "[[1, 2], [3, 4], [5, 6]]" "[3, 7, 11]" "[0, 0, 2]" "[1, 2, 1]"]
  by (simp add: rowwise_def rect_def width_def)

section \<open>Properties of the attention pooling\<close>

lemma spec_unnorm_nonneg:
  "0 \<le> weights ! r \<Longrightarrow> 0 \<le> spec_unnorm weights g index r"
  by (simp add: spec_unnorm_def)

lemma spec_mass_nonneg:
  assumes "length weights = length index" and "list_all (\<lambda>w. 0 \<le> w) weights"
  shows "0 \<le> sum_list (map (spec_unnorm weights g index) (seg index s))"
proof (rule sum_list_nonneg)
  fix u assume "u \<in> set (map (spec_unnorm weights g index) (seg index s))"
  then obtain r where "r < length index" and u: "u = spec_unnorm weights g index r"
    by (auto simp: seg_member)
  with assms have "0 \<le> weights ! r" by (simp add: list_all_length)
  then show "0 \<le> u" unfolding u by (rule spec_unnorm_nonneg)
qed

lemma spec_denom_pos:
  assumes "length weights = length index" and "list_all (\<lambda>w. 0 \<le> w) weights"
  shows "0 < spec_denom weights g index s"
  using spec_mass_nonneg[OF assms, of g s] by (simp add: spec_denom_def)

lemma GlobalAttention_forward_nonneg:
  assumes "gate_nn x = Inr g"
    and "length g = length x" and "length index = length x"
    and "length weights = length x" and "rect x"
    and "list_all (\<lambda>w. 0 \<le> w) weights"
  shows "GlobalAttention_forward gate_nn (Mat x) index weights =
     Inr (map (spec_out x weights g index) [0..<dim_size index])"
proof -
  have "spec_denom weights g index s \<noteq> 0" for s
    using spec_denom_pos[of weights index g s] assms by simp
  then have "\<not> list_ex (\<lambda>r. spec_denom weights g index (index ! r) = 0) [0..<length x]"
    by (simp add: list_ex_iff)
  then show ?thesis
    using GlobalAttention_forward_char[where gate_nn = gate_nn and x = x, OF assms(1-5)] by simp
qed

lemma seg_empty: "s \<notin> set index \<Longrightarrow> seg index s = []"
  by (auto simp: seg_def filter_empty_conv)

lemma spec_out_empty: "s \<notin> set index \<Longrightarrow> spec_out x weights g index s = replicate (width x) 0"
  by (simp add: spec_out_def seg_empty list_eq_iff_nth_eq)

text \<open>
  C10. With matching shapes and non-negative weights \<^verbatim>\<open>GlobalAttention.forward\<close>
  returns, and the number of its output rows is one plus the largest segment id that
  occurs in \<open>index\<close> (no rows for an empty index), whatever segment count the caller
  has in mind; a segment id below that bound without member rows gets a row that is
  exactly the zero vector, and an id at or above the bound gets no row.
\<close>

theorem GlobalAttention_forward_rows:
  assumes "gate_nn x = Inr g"
    and "length g = length x" and "length index = length x"
    and "length weights = length x" and "rect x"
    and "list_all (\<lambda>w. 0 \<le> w) weights"
  shows "\<exists>out. GlobalAttention_forward gate_nn (Mat x) index weights = Inr out \<and>
           length out = (if index = [] then 0 else Suc (Max (set index))) \<and>
           (\<forall>s<length out. s \<notin> set index \<longrightarrow> out ! s = replicate (width x) 0) \<and>
           (\<forall>s. (if index = [] then 0 else Suc (Max (set index))) \<le> s \<longrightarrow> \<not> s < length out)"
proof -
  let ?out = "map (spec_out x weights g index) [0..<dim_size index]"
  have "GlobalAttention_forward gate_nn (Mat x) index weights = Inr ?out"
    using assms by (rule GlobalAttention_forward_nonneg)
  moreover have "length ?out = (if index = [] then 0 else Suc (Max (set index)))"
    by (simp add: dim_size_Max) (simp add: dim_size_def)
  moreover have "\<forall>s<length ?out. s \<notin> set index \<longrightarrow> ?out ! s = replicate (width x) 0"
    by (simp add: spec_out_empty)
  ultimately show ?thesis by (intro exI[of _ ?out]) simp
qed

lemma seg_empty_iff: "seg index s = [] \<longleftrightarrow> s \<notin> set index"
proof
  assume "seg index s = []"
  then have "\<forall>r<length index. index ! r \<noteq> s"
    by (simp add: seg_def filter_empty_conv)
  then show "s \<notin> set index"
    by (metis in_set_conv_nth)
next
  assume "s \<notin> set index"
  then show "seg index s = []" by (rule seg_empty)
qed

lemma spec_max_shift:
  assumes "\<And>r. r < length index \<Longrightarrow> index ! r = s \<Longrightarrow> g' ! r = g ! r + c"
    and "s \<in> set index"
  shows "spec_max g' index s = spec_max g index s + c"
proof -
  let ?A = "set (map ((!) g) (seg index s))"
  have ne: "?A \<noteq> {}" using assms(2) by (simp add: seg_empty_iff)
  have "map ((!) g') (seg index s) = map (\<lambda>r. g ! r + c) (seg index s)"
    by (rule seg_map_cong) (rule assms(1))
  then have "set (map ((!) g') (seg index s)) = (\<lambda>v. v + c) ` ?A"
    by (simp add: image_image)
  moreover have "Max ((\<lambda>v. v + c) ` ?A) = Max ?A + c"
  proof (rule mono_Max_commute[symmetric])
    show "mono (\<lambda>v. v + c)" by (simp add: mono_def)
    show "finite ?A" by simp
    show "?A \<noteq> {}" by (rule ne)
  qed
  ultimately show ?thesis by (simp add: spec_max_def)
qed

lemma spec_unnorm_local:
  assumes "\<And>r. r < length index \<Longrightarrow> index ! r = s \<Longrightarrow> g' ! r = g ! r + c"
    and "\<And>r. r < length index \<Longrightarrow> index ! r = s \<Longrightarrow> weights' ! r = weights ! r"
    and "r < length index" and "index ! r = s"
  shows "spec_unnorm weights' g' index r = spec_unnorm weights g index r"
proof -
  have "s \<in> set index" using assms(3,4) by auto
  then have "spec_max g' index s = spec_max g index s + c"
    using assms(1) by (intro spec_max_shift)
  then show ?thesis
    using assms by (simp add: spec_unnorm_def)
qed

lemma spec_denom_local:
  assumes "\<And>r. r < length index \<Longrightarrow> index ! r = s \<Longrightarrow> g' ! r = g ! r + c"
    and "\<And>r. r < length index \<Longrightarrow> index ! r = s \<Longrightarrow> weights' ! r = weights ! r"
  shows "spec_denom weights' g' index s = spec_denom weights g index s"
proof -
  have eq: "map (spec_unnorm weights' g' index) (seg index s) =
        map (spec_unnorm weights g index) (seg index s)"
    by (rule seg_map_cong) (rule spec_unnorm_local[OF assms])
  show ?thesis unfolding spec_denom_def by (simp only: eq)
qed

lemma spec_coeff_local:
  assumes "\<And>r. r < length index \<Longrightarrow> index ! r = s \<Longrightarrow> g' ! r = g ! r + c"
    and "\<And>r. r < length index \<Longrightarrow> index ! r = s \<Longrightarrow> weights' ! r = weights ! r"
    and "r < length index" and "index ! r = s"
  shows "spec_coeff weights' g' index r = spec_coeff weights g index r"
  unfolding spec_coeff_def assms(4)
  by (simp only: spec_unnorm_local[OF assms] spec_denom_local[OF assms(1,2)])

lemma spec_out_local:
  assumes "\<And>r. r < length index \<Longrightarrow> index ! r = s \<Longrightarrow> g' ! r = g ! r + c"
    and "\<And>r. r < length index \<Longrightarrow> index ! r = s \<Longrightarrow> weights' ! r = weights ! r"
    and "\<And>r. r < length index \<Longrightarrow> index ! r = s \<Longrightarrow> x' ! r = x ! r"
    and "width x' = width x"
  shows "spec_out x' weights' g' index s = spec_out x weights g index s"
proof -
  have eq: "map (\<lambda>r. spec_coeff weights' g' index r * x' ! r ! k) (seg index s) =
        map (\<lambda>r. spec_coeff weights g index r * x ! r ! k) (seg index s)" for k
    by (rule seg_map_cong) (simp add: spec_coeff_local[OF assms(1,2)] assms(3))
  show ?thesis unfolding spec_out_def by (simp only: eq assms(4))
qed

text \<open>
  C4. Shift invariance, for matching shapes and non-negative weights: when a second gate
  network gives, on the rows of one segment, logits that are all larger by the same
  constant \<open>c\<close> (its logits elsewhere are free), both calls return and the pooled output
  row of that segment is the same.
\<close>

theorem GlobalAttention_shift_invariant:
  assumes "gate_nn x = Inr g" and "gate_nn' x = Inr g'"
    and "length g = length x" and "length g' = length x"
    and "length index = length x" and "length weights = length x" and "rect x"
    and "list_all (\<lambda>w. 0 \<le> w) weights"
    and "s < dim_size index"
    and "\<forall>r<length x. index ! r = s \<longrightarrow> g' ! r = g ! r + c"
  shows "\<exists>out out'. GlobalAttention_forward gate_nn (Mat x) index weights = Inr out \<and>
           GlobalAttention_forward gate_nn' (Mat x) index weights = Inr out' \<and>
           s < length out \<and> s < length out' \<and> out' ! s = out ! s"
proof -
  let ?out = "map (spec_out x weights g index) [0..<dim_size index]"
  let ?out' = "map (spec_out x weights g' index) [0..<dim_size index]"
  have 1: "GlobalAttention_forward gate_nn (Mat x) index weights = Inr ?out"
    using assms(1,3,5,6,7,8) by (rule GlobalAttention_forward_nonneg)
  have 2: "GlobalAttention_forward gate_nn' (Mat x) index weights = Inr ?out'"
    using assms(2,4,5,6,7,8) by (rule GlobalAttention_forward_nonneg)
  have "spec_out x weights g' index s = spec_out x weights g index s"
    by (rule spec_out_local[where c = c]) (use assms(5,10) in simp_all)
  then have "?out' ! s = ?out ! s" using assms(9) by simp
  with 1 2 assms(9) show ?thesis by (intro exI[of _ ?out] exI[of _ ?out']) simp
qed

theorem GlobalAttention_shift_invariant_witness:
  "\<exists>out out'.
     GlobalAttention_forward (rowwise sum_list) (Mat [[1, 2], [3, 4], [5, 6]]) [0, 2, 2] [1, 2, 1] = Inr out \<and>
     GlobalAttention_forward (shifted 7 (rowwise sum_list)) (Mat [[1, 2], [3, 4], [5, 6]]) [0, 2, 2] [1, 2, 1] = Inr out' \<and>
     2 < length out \<and> 2 < length out' \<and> out' ! 2 = out ! 2"
  using GlobalAttention_shift_invariant
    [of "rowwise sum_list" "[[1, 2], [3, 4], [5, 6]]" "[3, 7, 11]" "shifted 7 (rowwise sum_list)"
        "[10, 14, 18]" "[0, 2, 2]" "[1, 2, 1]" 2 7]
  by (simp add: rowwise_def shifted_def ebind_def rect_def width_def dim_size_def less_Suc_eq)

lemma attention_coeff_nonneg:
  assumes "gate_nn x = Inr g"
    and "length g = length x" and "length index = length x"
    and "length weights = length x"
    and "list_all (\<lambda>w. 0 \<le> w) weights"
  shows "attention_coeff gate_nn x index weights = Inr (map (spec_coeff weights g index) [0..<length x])"
proof -
  have "spec_denom weights g index s \<noteq> 0" for s
    using spec_denom_pos[of weights index g s] assms by simp
  then have "\<not> list_ex (\<lambda>r. spec_denom weights g index (index ! r) = 0) [0..<length x]"
    by (simp add: list_ex_iff)
  then show ?thesis
    using attention_coeff_char[where gate_nn = gate_nn and x = x, OF assms(1-4)] by simp
qed






theorem GlobalAttention_forward_rows_witness:
  "\<exists>out. GlobalAttention_forward (rowwise sum_list) (Mat [[1, 2], [3, 4], [5, 6]]) [0, 2, 2] [1, 2, 1]
            = Inr out \<and> length out = 3 \<and> out ! 1 = [0, 0] \<and> \<not> 3 < length out"
  using GlobalAttention_forward_rows
    [of "rowwise sum_list" "[[1, 2], [3, 4], [5, 6]]" "[3, 7, 11]" "[0, 2, 2]" "[1, 2, 1]"]
  by (auto simp add: rowwise_def rect_def width_def numeral_2_eq_2)


text \<open>
  C9. A segment id without member rows that lies above the largest id occurring in
  \<open>index\<close> gets no output row: pooling two rows that both belong to segment 0, as a
  message layer does for \<open>N = 2\<close> atoms of which only atom 0 owns bonds, returns a single
  row, so the member-free segment 1 of \<open>[0, 2)\<close> has no row.
\<close>

theorem GlobalAttention_forward_drops_trailing_segment:
  "rows_returned (GlobalAttention_forward (const_gate 0) (Mat [[1], [2]]) [0, 0] [1, 1]) = Some 1 \<and>
   \<not> has_row (GlobalAttention_forward (const_gate 0) (Mat [[1], [2]]) [0, 0] [1, 1]) 1"
  by (simp add: GlobalAttention_forward_def attention_coeff_def const_gate_def ebind_def
      unsqueeze_if_1d_def scatter_max_col_def dim_size_def max_step_def gather_def sub_col_def
      mul_col_def scatter_add_col_def div_col_def eps_def mul_rows_def scatter_add_def width_def
      vadd_def rows_returned_def has_row_def)

section \<open>Equal logits, weighted mean pooling and rows of weight zero\<close>

lemma spec_max_const:
  assumes "\<And>r. r < length index \<Longrightarrow> index ! r = s \<Longrightarrow> g ! r = v"
    and "s \<in> set index"
  shows "spec_max g index s = v"
proof -
  have "map ((!) g) (seg index s) = map (\<lambda>r. v) (seg index s)"
    by (rule seg_map_cong) (rule assms(1))
  moreover have "seg index s \<noteq> []" using assms(2) by (simp add: seg_empty_iff)
  ultimately have "set (map ((!) g) (seg index s)) = {v}"
    by (cases "seg index s") auto
  then show ?thesis by (simp add: spec_max_def)
qed

lemma spec_coeff_equal_logits:
  assumes eq: "\<forall>r<length index. \<forall>r'<length index. index ! r = index ! r' \<longrightarrow> g ! r = g ! r'"
    and r: "r < length index"
  shows "spec_coeff weights g index r = weighted_mean_coeff weights index r"
proof -
  have un: "spec_unnorm weights g index r' = weights ! r'" if r': "r' < length index" for r'
  proof -
    have "spec_max g index (index ! r') = g ! r'"
    proof (rule spec_max_const)
      show "index ! r' \<in> set index" using r' by simp
    next
      fix q assume q: "q < length index" "index ! q = index ! r'"
      from eq q r' show "g ! q = g ! r'" by blast
    qed
    then show ?thesis by (simp add: spec_unnorm_def)
  qed
  have "map (spec_unnorm weights g index) (seg index (index ! r)) =
        map ((!) weights) (seg index (index ! r))"
    by (rule seg_map_cong) (rule un)
  then show ?thesis
    unfolding spec_coeff_def spec_denom_def weighted_mean_coeff_def
    by (simp only: un[OF r])
qed

text \<open>
  When the gate logits are equal within every segment, the coefficient of a row is its
  weight divided by the segment's sum of weights plus \<open>1e-13\<close>, and the pooled row is the
  weighted mean of the segment with that guard.
\<close>

lemma GlobalAttention_equal_logits:
  assumes "gate_nn x = Inr g"
    and "length g = length x" and "length index = length x"
    and "length weights = length x" and "rect x"
    and "list_all (\<lambda>w. 0 \<le> w) weights"
    and "\<forall>r<length index. \<forall>r'<length index. index ! r = index ! r' \<longrightarrow> g ! r = g ! r'"
  shows "attention_coeff gate_nn x index weights =
           Inr (map (weighted_mean_coeff weights index) [0..<length x])"
    and "GlobalAttention_forward gate_nn (Mat x) index weights =
           Inr (map (\<lambda>s. map (\<lambda>k. sum_list (map (\<lambda>r. weighted_mean_coeff weights index r * x ! r ! k)
                                              (seg index s))) [0..<width x])
                  [0..<dim_size index])"
proof -
  have co: "spec_coeff weights g index r = weighted_mean_coeff weights index r"
    if "r < length index" for r
    using assms(7) that by (rule spec_coeff_equal_logits)
  have "map (spec_coeff weights g index) [0..<length x] =
        map (weighted_mean_coeff weights index) [0..<length x]"
    by (rule map_cong) (simp_all add: co assms(3))
  then show "attention_coeff gate_nn x index weights =
           Inr (map (weighted_mean_coeff weights index) [0..<length x])"
    using attention_coeff_nonneg[where gate_nn = gate_nn and x = x, OF assms(1-4,6)] by simp
  have inner: "map (\<lambda>r. spec_coeff weights g index r * x ! r ! k) (seg index s) =
        map (\<lambda>r. weighted_mean_coeff weights index r * x ! r ! k) (seg index s)" for k s
    by (rule seg_map_cong) (simp add: co)
  have "spec_out x weights g index =
        (\<lambda>s. map (\<lambda>k. sum_list (map (\<lambda>r. weighted_mean_coeff weights index r * x ! r ! k)
                                              (seg index s))) [0..<width x])"
    unfolding spec_out_def by (simp only: inner)
  then show "GlobalAttention_forward gate_nn (Mat x) index weights =
           Inr (map (\<lambda>s. map (\<lambda>k. sum_list (map (\<lambda>r. weighted_mean_coeff weights index r * x ! r ! k)
                                              (seg index s))) [0..<width x])
                  [0..<dim_size index])"
    using GlobalAttention_forward_nonneg[where gate_nn = gate_nn and x = x, OF assms(1-6)]
    by simp
qed

text \<open>
  C7. When the gate logits are equal within every segment, \<^verbatim>\<open>GlobalAttention\<close> is the
  weighted mean pooling with the \<open>1e-13\<close> guard: the coefficient of a row is its weight
  divided by the segment's sum of weights plus \<open>1e-13\<close>, and the pooled row is the sum of
  the rows of the segment with these coefficients.
\<close>

theorem GlobalAttention_equal_logits_is_weighted_mean:
  assumes "gate_nn x = Inr g"
    and "length g = length x" and "length index = length x"
    and "length weights = length x" and "rect x"
    and "list_all (\<lambda>w. 0 \<le> w) weights"
    and "\<forall>r<length index. \<forall>r'<length index. index ! r = index ! r' \<longrightarrow> g ! r = g ! r'"
  shows "attention_coeff gate_nn x index weights =
           Inr (map (weighted_mean_coeff weights index) [0..<length x]) \<and>
         GlobalAttention_forward gate_nn (Mat x) index weights =
           Inr (map (\<lambda>s. map (\<lambda>k. sum_list (map (\<lambda>r. weighted_mean_coeff weights index r * x ! r ! k)
                                              (seg index s))) [0..<width x])
                  [0..<dim_size index])"
  using GlobalAttention_equal_logits[where gate_nn = gate_nn and x = x, OF assms] by blast

theorem GlobalAttention_equal_logits_is_weighted_mean_witness:
  "attention_coeff (const_gate 0) [[2], [3]] [0, 0] [1, 1] =
     Inr (map (weighted_mean_coeff [1, 1] [0, 0]) [0..<length [[2], [3 :: real]]]) \<and>
   GlobalAttention_forward (const_gate 0) (Mat [[2], [3]]) [0, 0] [1, 1] =
     Inr (map (\<lambda>s. map (\<lambda>k. sum_list (map (\<lambda>r. weighted_mean_coeff [1, 1] [0, 0] r * [[2], [3]] ! r ! k)
                                              (seg [0, 0] s))) [0..<width [[2], [3]]])
                  [0..<dim_size [0, 0]]) \<and>
   weighted_mean_coeff [1, 1] [0, 0] 0 = 1 / (2 + 1 / 10 ^ 13)"
proof -
  have eq: "\<forall>r<length [0, 0 :: nat]. \<forall>r'<length [0, 0 :: nat].
      [0, 0 :: nat] ! r = [0, 0] ! r' \<longrightarrow> [0, 0 :: real] ! r = [0, 0] ! r'"
    by (simp add: less_Suc_eq)
  have w: "weighted_mean_coeff [1, 1] [0, 0] 0 = 1 / (2 + 1 / 10 ^ 13)"
    by (simp add: weighted_mean_coeff_def seg_def)
  have "const_gate 0 [[2], [3]] = Inr [0, 0]" "rect [[2], [3]]"
    by (simp_all add: const_gate_def rect_def width_def)
  then show ?thesis
    using GlobalAttention_equal_logits_is_weighted_mean
      [of "const_gate 0" "[[2], [3]]" "[0, 0]" "[0, 0]" "[1, 1]", OF _ _ _ _ _ _ eq] w
    by simp
qed

text \<open>
  The class \<^verbatim>\<open>WeightedMeanPooling\<close> of the source, which no code path calls, reduces with
  \<^verbatim>\<open>scatter_mul\<close>: on two rows \<open>[2]\<close> and \<open>[3]\<close> of weight 1 in one segment it returns
  the product 6 divided by the product of the weights, while \<^verbatim>\<open>GlobalAttention\<close> with a
  constant gate gives the guarded weighted mean \<open>5 / (2 + 1e-13)\<close>.
\<close>

lemma WeightedMeanPooling_is_product:
  "WeightedMeanPooling_forward [[2], [3]] [0, 0] [1, 1] = Inr [[6]] \<and>
   GlobalAttention_forward (const_gate 0) (Mat [[2], [3]]) [0, 0] [1, 1] = Inr [[5 / (2 + 1 / 10 ^ 13)]]"
  by (simp add: WeightedMeanPooling_forward_def mul_rows_def scatter_mul_def scatter_mul_col_def
      div_rows_def vmul_def
      GlobalAttention_forward_def attention_coeff_def const_gate_def ebind_def
      unsqueeze_if_1d_def scatter_max_col_def dim_size_def max_step_def gather_def sub_col_def
      mul_col_def scatter_add_col_def div_col_def eps_def scatter_add_def width_def
      vadd_def)





section \<open>MessageLayer and CompositionNet on concrete batches\<close>

lemma sqrt_a: "sqrt (121 / 4000000) = 11 / 2000"
  by (rule real_sqrt_unique) (simp_all add: power2_eq_square)

lemma sqrt_b: "sqrt (1002001 / 400000000) = 1001 / 20000"
  by (rule real_sqrt_unique) (simp_all add: power2_eq_square)

lemmas eval_defs =
  CompositionNet_forward_def crys_fea_of_def CompositionNet_init_def MessageLayer_init_def
  MessageLayer_forward_def nbr_message_def example_net_def example_net_nbr_def example_embedding_def example_filter_def example_core_def
  example_core_nbr_def identity_module_def const_gate_def
  Linear_forward_def Linear_row_def dot_def cat3_def mul_mat_def vmul_def
  BatchNorm1d_forward_def BatchNorm1d_init_def bn_rows_def column_def batch_mean_def
  batch_var_def normalize1_def bn_eps_def power2_eq_square sigmoid_def elu_def
  GlobalAttention_forward_def attention_coeff_def ebind_def
  unsqueeze_if_1d_def scatter_max_col_def dim_size_def max_step_def gather_def sub_col_def
  mul_col_def scatter_add_col_def div_col_def eps_def mul_rows_def scatter_add_def width_def
  vadd_def rows_returned_def row_of_def

text \<open>
  A network constructed with \<^verbatim>\<open>output_nn=None\<close> never returns the pooled crystal
  features: the constructor does not assign the attribute, and the forward pass reads it
  after the pooling.
\<close>

lemma CompositionNet_forward_output_nn_None:
  "CompositionNet_forward (CompositionNet_init emb nfl agate cgate afl drawn None)
      atom_weights orig_atom_fea nbr_fea self_fea_idx nbr_fea_idx crystal_atom_idx =
   (case crys_fea_of (CompositionNet_init emb nfl agate cgate afl drawn None)
           atom_weights orig_atom_fea nbr_fea self_fea_idx nbr_fea_idx crystal_atom_idx of
      Inl e \<Rightarrow> Inl e | Inr crys_fea \<Rightarrow> Inl AttributeError)"
  by (simp add: CompositionNet_forward_def CompositionNet_init_def ebind_def split: sum.split)

text \<open>
  C3. A \<^verbatim>\<open>CompositionNet\<close> constructed without an output transform does not return
  the pooled crystal features: on a batch of two one-atom crystals the pooling succeeds,
  and the forward pass then raises \<^verbatim>\<open>AttributeError\<close> at \<^verbatim>\<open>if self.output_nn:\<close>.
\<close>

theorem CompositionNet_forward_raises_without_output_nn:
  "crys_fea_of (example_net None) [1, 1] [[9 / 1000], [0]] [[1], [1]] [0, 1] [0, 1] [0, 1] =
     Inr [[9 / 22 / (1 + 1 / 10 ^ 13) ^ 2], [(exp (- (9 / 11)) - 1) / 2 / (1 + 1 / 10 ^ 13) ^ 2]] \<and>
   CompositionNet_forward (example_net None) [1, 1] [[9 / 1000], [0]] [[1], [1]] [0, 1] [0, 1] [0, 1] =
     Inl AttributeError"
  by (simp add: eval_defs sqrt_a field_simps)

text \<open>
  C6 as stated fails in training mode, the mode of a freshly constructed network: the
  normalisation of the messages uses the statistics of the whole batch. Two crystals of
  one atom each, one bond from each atom to itself (no bond crosses crystals); changing
  only the feature of the atom of the second crystal from \<open>0\<close> to \<open>-0.0909\<close> changes the
  output row of the first crystal.
\<close>

theorem CompositionNet_training_mode_counterexample:
  "row_of (CompositionNet_forward (example_net (Some identity_module))
             [1, 1] [[9 / 1000], [0]] [[1], [1]] [0, 1] [0, 1] [0, 1]) 0 =
     Some [9 / 22 / (1 + 1 / 10 ^ 13) ^ 2] \<and>
   row_of (CompositionNet_forward (example_net (Some identity_module))
             [1, 1] [[9 / 1000], [- 909 / 10000]] [[1], [1]] [0, 1] [0, 1] [0, 1]) 0 =
     Some [999 / 2002 / (1 + 1 / 10 ^ 13) ^ 2] \<and>
   row_of (CompositionNet_forward (example_net (Some identity_module))
             [1, 1] [[9 / 1000], [0]] [[1], [1]] [0, 1] [0, 1] [0, 1]) 0 \<noteq>
   row_of (CompositionNet_forward (example_net (Some identity_module))
             [1, 1] [[9 / 1000], [- 909 / 10000]] [[1], [1]] [0, 1] [0, 1] [0, 1]) 0"
  by (simp add: eval_defs sqrt_a sqrt_b)

text \<open>
  Whatever the inputs, a call of \<^verbatim>\<open>GlobalAttention.forward\<close> that returns gives one
  row per segment id up to the largest one in its index, and so a message layer that
  returns gives one row per atom index up to the largest one in \<open>self_fea_idx\<close>.
\<close>

lemma GlobalAttention_forward_length:
  assumes "GlobalAttention_forward gate_nn x index weights = Inr out"
  shows "length out = dim_size index"
proof -
  from assms obtain gx where "scatter_add gx index = Inr out"
    unfolding GlobalAttention_forward_def Let_def
    by (auto simp add: ebind_def split: sum.splits)
  then show ?thesis
    by (auto simp add: scatter_add_def scatter_loop_length split: if_splits)
qed

lemma MessageLayer_forward_row_count:
  assumes "MessageLayer_forward L atom_weights atom_in_fea bond_nbr_fea self_fea_idx nbr_fea_idx
             = Inr out"
  shows "length out = dim_size self_fea_idx"
proof -
  from assms obtain msg w where
    "GlobalAttention_forward (pooling_gate L) (Mat msg) self_fea_idx w = Inr out"
    unfolding MessageLayer_forward_def
    by (auto simp add: ebind_def split: sum.splits)
  then show ?thesis by (rule GlobalAttention_forward_length)
qed

text \<open>
  C2. The gathers, the concatenation, the gated message and the pooling call are those of
  the definition of \<open>MessageLayer_forward\<close>, but the result has one row per atom only up to the largest atom index that owns a
  bond: with \<open>N = 2\<close> atoms of which only atom 0 owns bonds, \<^verbatim>\<open>MessageLayer.forward\<close>
  returns one row, not the \<open>(N, atom_fea_len)\<close> tensor of its docstring, and the forward
  pass of the network that contains the layer then fails in the crystal pooling.
\<close>

theorem MessageLayer_forward_drops_trailing_atom:
  "length [[9 / 1000], [0 :: real]] = 2 \<and>
   rows_returned (MessageLayer_forward (MessageLayer_init 1 1 (const_gate 0) example_filter example_core_nbr)
      [1, 1] [[9 / 1000], [0]] [[1], [1]] [0, 0] [0, 1]) = Some 1 \<and>
   CompositionNet_forward example_net_nbr [1, 1] [[9 / 1000], [0]] [[1], [1]] [0, 0] [0, 1] [0, 0] =
     Inl RuntimeError"
  by (simp add: eval_defs sqrt_a)

section \<open>Crystal isolation in evaluation mode\<close>

lemma ebind_Inr: "ebind m f = Inr y \<longleftrightarrow> (\<exists>v. m = Inr v \<and> f v = Inr y)"
  by (cases m) (simp_all add: ebind_def)

lemma uniform_rect: "uniform k m \<Longrightarrow> rect m"
  by (cases m) (simp_all add: uniform_def rect_def width_def list_all_iff)

lemma uniform_width: "uniform k m \<Longrightarrow> m \<noteq> [] \<Longrightarrow> width m = k"
  by (cases m) (simp_all add: uniform_def width_def)

lemma uniform_width_eq:
  "uniform k a \<Longrightarrow> uniform k b \<Longrightarrow> length a = length b \<Longrightarrow> width a = width b"
  by (cases a; cases b) (simp_all add: uniform_def width_def)

lemma uniform_map: "(\<And>r. length (f r) = k) \<Longrightarrow> uniform k (map f x)"
  by (simp add: uniform_def list_all_iff)

lemma Linear_forward_rows:
  "Linear_forward L x = Inr y \<Longrightarrow> y = map (Linear_row L) x"
  by (simp add: Linear_forward_def split: if_splits)

lemma Linear_row_length:
  "length (Linear_row L r) = min (length (weight L)) (length (bias L))"
  by (simp add: Linear_row_def)

lemma BatchNorm1d_eval_rows:
  "\<not> training bn \<Longrightarrow> BatchNorm1d_forward bn x = Inr y \<Longrightarrow> y = map (bn_row bn) x"
  by (auto simp add: BatchNorm1d_forward_def bn_rows_def bn_row_def split: if_splits)

lemma bn_row_length: "length (bn_row bn r) = num_features bn"
  by (simp add: bn_row_def)

lemma mul_mat_rows:
  "mul_mat (map f x) (map g x) = Inr m \<Longrightarrow> m = map (\<lambda>r. vmul (f r) (g r)) x"
proof -
  assume "mul_mat (map f x) (map g x) = Inr m"
  then have "m = map2 vmul (map f x) (map g x)"
    by (simp add: mul_mat_def split: if_splits)
  also have "\<dots> = map (\<lambda>r. vmul (f r) (g r)) x"
    by (induction x) simp_all
  finally show ?thesis .
qed

lemma nbr_message_eval:
  assumes "\<not> training (filter_bn L)" and "\<not> training (core_bn L)"
    and "nbr_message L T = Inr m"
  shows "m = map (msg_row L) T"
proof -
  from assms(3) obtain f1 f2 c1 c2 where
    f1: "Linear_forward (filter_msg L) T = Inr f1" and
    f2: "BatchNorm1d_forward (filter_bn L) f1 = Inr f2" and
    c1: "Linear_forward (core_msg L) T = Inr c1" and
    c2: "BatchNorm1d_forward (core_bn L) c1 = Inr c2" and
    mm: "mul_mat (map (map sigmoid) f2) (map (map elu) c2) = Inr m"
    unfolding nbr_message_def ebind_Inr by blast
  have f2': "f2 = map (\<lambda>r. bn_row (filter_bn L) (Linear_row (filter_msg L) r)) T"
    using BatchNorm1d_eval_rows[OF assms(1) f2] Linear_forward_rows[OF f1] by simp
  have c2': "c2 = map (\<lambda>r. bn_row (core_bn L) (Linear_row (core_msg L) r)) T"
    using BatchNorm1d_eval_rows[OF assms(2) c2] Linear_forward_rows[OF c1] by simp
  have "mul_mat (map (\<lambda>r. map sigmoid (bn_row (filter_bn L) (Linear_row (filter_msg L) r))) T)
                (map (\<lambda>r. map elu (bn_row (core_bn L) (Linear_row (core_msg L) r))) T) = Inr m"
    using mm unfolding f2' c2' by (simp add: comp_def)
  then have "m = map (\<lambda>r. vmul (map sigmoid (bn_row (filter_bn L) (Linear_row (filter_msg L) r)))
                              (map elu (bn_row (core_bn L) (Linear_row (core_msg L) r)))) T"
    by (rule mul_mat_rows)
  then show ?thesis by (simp add: msg_row_def)
qed

lemma msg_row_length:
  "length (msg_row L r) = min (num_features (filter_bn L)) (num_features (core_bn L))"
  by (simp add: msg_row_def vmul_def bn_row_length)

lemma GlobalAttention_forward_shapes:
  assumes "GlobalAttention_forward gate_nn (Mat x) index weights = Inr out"
  shows "\<exists>g. gate_nn x = Inr g \<and> length g = length x \<and> length index = length x \<and>
             length weights = length x"
proof -
  from assms obtain c where c: "attention_coeff gate_nn x index weights = Inr c"
    unfolding GlobalAttention_forward_def Let_def unsqueeze_if_1d_def ebind_Inr by auto
  from c obtain g where g: "gate_nn x = Inr g"
    and rest: "(if length g = length x then
         ebind (scatter_max_col g index) (\<lambda>mx.
         ebind (gather mx index) (\<lambda>mxi.
         ebind (sub_col g mxi) (\<lambda>gate1.
         ebind (mul_col weights (map exp gate1)) (\<lambda>gate2.
         ebind (scatter_add_col gate2 index) (\<lambda>sm.
         ebind (gather sm index) (\<lambda>smi.
         div_col gate2 (map (\<lambda>a. a + eps) smi)))))))
       else Inl AssertionError) = Inr c"
    unfolding attention_coeff_def ebind_Inr by blast
  from rest have lg: "length g = length x"
    by (simp split: if_splits)
  from rest lg have "ebind (scatter_max_col g index) (\<lambda>mx.
         ebind (gather mx index) (\<lambda>mxi.
         ebind (sub_col g mxi) (\<lambda>gate1.
         ebind (mul_col weights (map exp gate1)) (\<lambda>gate2.
         ebind (scatter_add_col gate2 index) (\<lambda>sm.
         ebind (gather sm index) (\<lambda>smi.
         div_col gate2 (map (\<lambda>a. a + eps) smi))))))) = Inr c"
    by simp
  then obtain mx mxi gate1 gate2 where
    mx: "scatter_max_col g index = Inr mx" and
    mxi: "gather mx index = Inr mxi" and
    g1: "sub_col g mxi = Inr gate1" and
    g2: "mul_col weights (map exp gate1) = Inr gate2"
    unfolding ebind_Inr by blast
  have li: "length index = length g"
    using mx by (simp add: scatter_max_col_def split: if_splits)
  have "length mxi = length index"
    using mxi by (auto simp add: gather_def split: if_splits)
  moreover have "length gate1 = length g" "length g = length mxi"
    using g1 by (auto simp add: sub_col_def split: if_splits)
  moreover have "length weights = length gate1"
    using g2 by (simp add: mul_col_def split: if_splits)
  ultimately show ?thesis using g lg li by simp
qed

lemma GlobalAttention_forward_Inr_char:
  assumes "GlobalAttention_forward gate_nn (Mat x) index weights = Inr out" and "rect x"
  shows "\<exists>g. gate_nn x = Inr g \<and> length index = length x \<and>
             out = map (spec_out x weights g index) [0..<dim_size index]"
proof -
  from GlobalAttention_forward_shapes[OF assms(1)] obtain g where
    g: "gate_nn x = Inr g" and lg: "length g = length x" and li: "length index = length x"
    and lw: "length weights = length x" by blast
  have "GlobalAttention_forward gate_nn (Mat x) index weights =
    (if list_ex (\<lambda>r. spec_denom weights g index (index ! r) = 0) [0..<length x]
     then Inl NonFinite
     else Inr (map (spec_out x weights g index) [0..<dim_size index]))"
    using g lg li lw assms(2) by (rule GlobalAttention_forward_char)
  with assms(1) have "out = map (spec_out x weights g index) [0..<dim_size index]"
    by (simp split: if_splits)
  with g li show ?thesis by blast
qed

lemma spec_out_length: "length (spec_out x weights g index s) = width x"
  by (simp add: spec_out_def)

lemma GlobalAttention_rowwise_local:
  assumes a: "GlobalAttention_forward (rowwise f) (Mat x) index weights = Inr out"
    and b: "GlobalAttention_forward (rowwise f) (Mat x') index weights = Inr out'"
    and rx: "rect x" and rx': "rect x'" and w: "width x' = width x"
    and same: "\<And>r. r < length index \<Longrightarrow> index ! r = s \<Longrightarrow> x' ! r = x ! r"
    and s: "s < dim_size index"
  shows "out' ! s = out ! s"
proof -
  from GlobalAttention_forward_Inr_char[OF a rx] obtain g where
    g: "rowwise f x = Inr g" and li: "length index = length x"
    and out: "out = map (spec_out x weights g index) [0..<dim_size index]" by blast
  from GlobalAttention_forward_Inr_char[OF b rx'] obtain g' where
    g': "rowwise f x' = Inr g'" and li': "length index = length x'"
    and out': "out' = map (spec_out x' weights g' index) [0..<dim_size index]" by blast
  have gv: "g = map f x" using g by (simp add: rowwise_def)
  have gv': "g' = map f x'" using g' by (simp add: rowwise_def)
  have "spec_out x' weights g' index s = spec_out x weights g index s"
  proof (rule spec_out_local[where c = 0])
    fix r assume r: "r < length index" "index ! r = s"
    then show "g' ! r = g ! r + 0"
      using same[OF r] li li' by (simp add: gv gv')
    show "weights ! r = weights ! r" by simp
    show "x' ! r = x ! r" using r by (rule same)
  next
    show "width x' = width x" by (rule w)
  qed
  then show ?thesis using s by (simp add: out out')
qed

lemma gather_Inr:
  "gather src index = Inr v \<Longrightarrow> v = map ((!) src) index \<and> list_all (\<lambda>i. i < length src) index"
  by (auto simp add: gather_def split: if_splits)

lemma cat3_Inr:
  assumes "cat3 a b c = Inr t"
  shows "length t = length a" and "length b = length a" and "length c = length a"
    and "\<And>j. j < length a \<Longrightarrow> t ! j = a ! j @ b ! j @ c ! j"
  using assms by (auto simp add: cat3_def split: if_splits)

lemma MessageLayer_forward_local:
  assumes ev: "\<not> training (filter_bn L)" "\<not> training (core_bn L)"
    and gate: "pooling_gate L = rowwise f"
    and a: "MessageLayer_forward L aw A bond sidx nidx = Inr out"
    and b: "MessageLayer_forward L aw B bond sidx nidx = Inr out'"
    and same: "\<And>i. i < length A \<Longrightarrow> cidx ! i = c \<Longrightarrow> B ! i = A ! i"
    and nocross: "list_all2 (\<lambda>i j. cidx ! i = cidx ! j) sidx nidx"
  shows "length out' = length out \<and> (\<exists>k. uniform k out \<and> uniform k out') \<and>
         (\<forall>i<length out. cidx ! i = c \<longrightarrow> out' ! i = out ! i)"
proof -
  from a obtain nw nbrA selfA TA mA where
    nw: "gather aw nidx = Inr nw" and nbrA: "gather A nidx = Inr nbrA" and
    selfA: "gather A sidx = Inr selfA" and TA: "cat3 selfA nbrA bond = Inr TA" and
    mA: "nbr_message L TA = Inr mA" and
    pa: "GlobalAttention_forward (rowwise f) (Mat mA) sidx nw = Inr out"
    unfolding MessageLayer_forward_def ebind_Inr gate by blast
  from b obtain nw' nbrB selfB TB mB where
    nw': "gather aw nidx = Inr nw'" and nbrB: "gather B nidx = Inr nbrB" and
    selfB: "gather B sidx = Inr selfB" and TB: "cat3 selfB nbrB bond = Inr TB" and
    mB: "nbr_message L TB = Inr mB" and
    pb0: "GlobalAttention_forward (rowwise f) (Mat mB) sidx nw' = Inr out'"
    unfolding MessageLayer_forward_def ebind_Inr gate by blast
  have pb: "GlobalAttention_forward (rowwise f) (Mat mB) sidx nw = Inr out'"
    using pb0 nw nw' by simp
  note gA = gather_Inr[OF selfA] gather_Inr[OF nbrA]
  note gB = gather_Inr[OF selfB] gather_Inr[OF nbrB]
  have lsA: "length selfA = length sidx" and lnA: "length nbrA = length nidx"
    using gA by simp_all
  have lsB: "length selfB = length sidx" and lnB: "length nbrB = length nidx"
    using gB by simp_all
  have lTA: "length TA = length sidx" using cat3_Inr(1)[OF TA] lsA by simp
  have lTB: "length TB = length sidx" using cat3_Inr(1)[OF TB] lsB by simp
  have lni: "length nidx = length sidx" using cat3_Inr(2)[OF TA] lsA lnA by simp
  have mAv: "mA = map (msg_row L) TA" using ev mA by (rule nbr_message_eval)
  have mBv: "mB = map (msg_row L) TB" using ev mB by (rule nbr_message_eval)
  let ?k = "min (num_features (filter_bn L)) (num_features (core_bn L))"
  have uA: "uniform ?k mA" unfolding mAv by (rule uniform_map) (rule msg_row_length)
  have uB: "uniform ?k mB" unfolding mBv by (rule uniform_map) (rule msg_row_length)
  have lm: "length mA = length mB" by (simp add: mAv mBv lTA lTB)
  have wd: "width mB = width mA" using uB uA lm[symmetric] by (rule uniform_width_eq)
  have rows: "mB ! j = mA ! j" if j: "j < length sidx" and cj: "cidx ! (sidx ! j) = c" for j
  proof -
    have sj: "sidx ! j < length A" using gA(1) j by (simp add: list_all_length)
    have nj: "nidx ! j < length A" using gA(2) j lni by (simp add: list_all_length)
    have "cidx ! (sidx ! j) = cidx ! (nidx ! j)"
      using nocross j by (simp add: list_all2_conv_all_nth)
    then have cn: "cidx ! (nidx ! j) = c" using cj by simp
    have 1: "selfB ! j = selfA ! j" using gA(1) gB(1) j same[OF sj cj] by simp
    have 2: "nbrB ! j = nbrA ! j" using gA(2) gB(2) j lni same[OF nj cn] by simp
    have "TB ! j = TA ! j"
      using cat3_Inr(4)[OF TA, of j] cat3_Inr(4)[OF TB, of j] j lsA lsB 1 2 by simp
    then show ?thesis using j lTA lTB by (simp add: mAv mBv)
  qed
  from GlobalAttention_forward_Inr_char[OF pa uniform_rect[OF uA]] obtain g where
    out: "out = map (spec_out mA nw g sidx) [0..<dim_size sidx]" by blast
  from GlobalAttention_forward_Inr_char[OF pb uniform_rect[OF uB]] obtain g' where
    out': "out' = map (spec_out mB nw g' sidx) [0..<dim_size sidx]" by blast
  have len: "length out' = length out" by (simp add: out out')
  have u1: "uniform (width mA) out"
    unfolding out by (rule uniform_map) (rule spec_out_length)
  have u2: "uniform (width mA) out'"
    unfolding out' wd[symmetric] by (rule uniform_map) (rule spec_out_length)
  have loc: "out' ! i = out ! i" if i: "i < length out" and ci: "cidx ! i = c" for i
  proof (rule GlobalAttention_rowwise_local[OF pa pb uniform_rect[OF uA] uniform_rect[OF uB] wd])
    show "i < dim_size sidx" using i by (simp add: out)
  next
    fix r assume "r < length sidx" "sidx ! r = i"
    then show "mB ! r = mA ! r" using ci by (intro rows) simp_all
  qed
  show ?thesis using len u1 u2 loc by blast
qed

lemma graph_loop_local:
  assumes "list_all (\<lambda>L. \<not> training (filter_bn L) \<and> \<not> training (core_bn L)) Ls"
    and "list_all (\<lambda>L. \<exists>f. pooling_gate L = rowwise f) Ls"
    and "graph_loop Ls aw A bond sidx nidx = Inr out"
    and "graph_loop Ls aw B bond sidx nidx = Inr out'"
    and "length B = length A" and "\<exists>k. uniform k A \<and> uniform k B"
    and "\<forall>i<length A. cidx ! i = c \<longrightarrow> B ! i = A ! i"
    and "list_all2 (\<lambda>i j. cidx ! i = cidx ! j) sidx nidx"
  shows "length out' = length out \<and> (\<exists>k. uniform k out \<and> uniform k out') \<and>
         (\<forall>i<length out. cidx ! i = c \<longrightarrow> out' ! i = out ! i)"
  using assms
proof (induction Ls arbitrary: A B)
  case Nil
  then show ?case by simp
next
  case (Cons L Ls)
  from Cons.prems(3) obtain A1 where
    a1: "MessageLayer_forward L aw A bond sidx nidx = Inr A1" and
    a2: "graph_loop Ls aw A1 bond sidx nidx = Inr out"
    by (auto simp add: ebind_Inr)
  from Cons.prems(4) obtain B1 where
    b1: "MessageLayer_forward L aw B bond sidx nidx = Inr B1" and
    b2: "graph_loop Ls aw B1 bond sidx nidx = Inr out'"
    by (auto simp add: ebind_Inr)
  from Cons.prems(1) have ev: "\<not> training (filter_bn L)" "\<not> training (core_bn L)"
    and evs: "list_all (\<lambda>L. \<not> training (filter_bn L) \<and> \<not> training (core_bn L)) Ls"
    by simp_all
  from Cons.prems(2) obtain f where gate: "pooling_gate L = rowwise f"
    and gates: "list_all (\<lambda>L. \<exists>f. pooling_gate L = rowwise f) Ls"
    by auto
  have same: "\<And>i. i < length A \<Longrightarrow> cidx ! i = c \<Longrightarrow> B ! i = A ! i"
    using Cons.prems(7) by blast
  have step: "length B1 = length A1 \<and> (\<exists>k. uniform k A1 \<and> uniform k B1) \<and>
         (\<forall>i<length A1. cidx ! i = c \<longrightarrow> B1 ! i = A1 ! i)"
    using ev gate a1 b1 same Cons.prems(8) by (rule MessageLayer_forward_local)
  show ?case
    using evs gates a2 b2 step Cons.prems(8)
    by (intro Cons.IH) blast+
qed

text \<open>
  C6, as amended. In evaluation mode (every normalisation uses its running statistics),
  with gate networks and an output transform that act on each row on its own, and with no
  bond that joins atoms of different crystals: when two runs on the same batch differ only
  in the input features of atoms outside crystal \<open>c\<close> and both return, they return the
  same number of rows and the same output row for crystal \<open>c\<close>. For a batch of two
  crystals and \<open>c = 0\<close> this is the first crystal under a perturbation of the second.
\<close>

theorem CompositionNet_crystal_isolation:
  assumes "eval_mode net" and "rowwise_gates net" and "rowwise_output net"
    and "list_all2 (\<lambda>i j. crystal_atom_idx ! i = crystal_atom_idx ! j) self_fea_idx nbr_fea_idx"
    and "length fea' = length fea"
    and "\<forall>i<length fea. crystal_atom_idx ! i = c \<longrightarrow> fea' ! i = fea ! i"
    and "CompositionNet_forward net atom_weights fea nbr_fea self_fea_idx nbr_fea_idx
           crystal_atom_idx = Inr out"
    and "CompositionNet_forward net atom_weights fea' nbr_fea self_fea_idx nbr_fea_idx
           crystal_atom_idx = Inr out'"
    and "c < length out"
  shows "length out' = length out \<and> out' ! c = out ! c"
proof -
  from assms(3) obtain m h where m: "output_nn net = Some m"
    and h: "call m = (\<lambda>x. Inr (map h x))"
    unfolding rowwise_output_def by blast
  from assms(2) obtain fc where fc: "crys_gate net = rowwise fc"
    and gates: "list_all (\<lambda>L. \<exists>f. pooling_gate L = rowwise f) (graphs net)"
    unfolding rowwise_gates_def by blast
  from assms(7) obtain crys where
    ca: "crys_fea_of net atom_weights fea nbr_fea self_fea_idx nbr_fea_idx crystal_atom_idx = Inr crys"
    and oa: "(if truthy m then call m crys else Inr crys) = Inr out"
    unfolding CompositionNet_forward_def ebind_Inr by (auto simp add: m)
  from assms(8) obtain crys' where
    cb: "crys_fea_of net atom_weights fea' nbr_fea self_fea_idx nbr_fea_idx crystal_atom_idx = Inr crys'"
    and ob: "(if truthy m then call m crys' else Inr crys') = Inr out'"
    unfolding CompositionNet_forward_def ebind_Inr by (auto simp add: m)
  from ca obtain A0 A where
    ea: "Linear_forward (embedding net) fea = Inr A0" and
    ga: "graph_loop (graphs net) atom_weights A0 nbr_fea self_fea_idx nbr_fea_idx = Inr A" and
    pa: "GlobalAttention_forward (rowwise fc) (Mat A) crystal_atom_idx atom_weights = Inr crys"
    unfolding crys_fea_of_def ebind_Inr fc by blast
  from cb obtain B0 B where
    eb: "Linear_forward (embedding net) fea' = Inr B0" and
    gb: "graph_loop (graphs net) atom_weights B0 nbr_fea self_fea_idx nbr_fea_idx = Inr B" and
    pb: "GlobalAttention_forward (rowwise fc) (Mat B) crystal_atom_idx atom_weights = Inr crys'"
    unfolding crys_fea_of_def ebind_Inr fc by blast
  have A0: "A0 = map (Linear_row (embedding net)) fea" using ea by (rule Linear_forward_rows)
  have B0: "B0 = map (Linear_row (embedding net)) fea'" using eb by (rule Linear_forward_rows)
  let ?k = "min (length (weight (embedding net))) (length (bias (embedding net)))"
  have u0: "uniform ?k A0 \<and> uniform ?k B0"
    unfolding A0 B0 by (intro conjI uniform_map Linear_row_length)
  then have u0': "\<exists>k. uniform k A0 \<and> uniform k B0" by blast
  have l0: "length B0 = length A0" by (simp add: A0 B0 assms(5))
  have s0: "\<forall>i<length A0. crystal_atom_idx ! i = c \<longrightarrow> B0 ! i = A0 ! i"
    using assms(5,6) by (simp add: A0 B0)
  have ev: "list_all (\<lambda>L. \<not> training (filter_bn L) \<and> \<not> training (core_bn L)) (graphs net)"
    using assms(1) by (simp add: eval_mode_def)
  have inv: "length B = length A \<and> (\<exists>k. uniform k A \<and> uniform k B) \<and>
         (\<forall>i<length A. crystal_atom_idx ! i = c \<longrightarrow> B ! i = A ! i)"
    using ev gates ga gb l0 u0' s0 assms(4) by (rule graph_loop_local)
  then obtain k where uA: "uniform k A" and uB: "uniform k B" by blast
  have lAB: "length B = length A" using inv by blast
  have wd: "width B = width A" using uB uA lAB by (rule uniform_width_eq)
  from GlobalAttention_forward_Inr_char[OF pa uniform_rect[OF uA]] obtain g where
    li: "length crystal_atom_idx = length A" and
    crys: "crys = map (spec_out A atom_weights g crystal_atom_idx) [0..<dim_size crystal_atom_idx]"
    by blast
  from GlobalAttention_forward_Inr_char[OF pb uniform_rect[OF uB]] obtain g' where
    crys': "crys' = map (spec_out B atom_weights g' crystal_atom_idx) [0..<dim_size crystal_atom_idx]"
    by blast
  have lc: "length crys' = length crys" by (simp add: crys crys')
  have lo: "length out = length crys" using oa h by (auto split: if_splits)
  have lo': "length out' = length crys'" using ob h by (auto split: if_splits)
  have c: "c < dim_size crystal_atom_idx" using assms(9) lo by (simp add: crys)
  have row: "crys' ! c = crys ! c"
  proof (rule GlobalAttention_rowwise_local[OF pa pb uniform_rect[OF uA] uniform_rect[OF uB] wd _ c])
    fix r assume "r < length crystal_atom_idx" "crystal_atom_idx ! r = c"
    then show "B ! r = A ! r" using inv li by simp
  qed
  have "out' ! c = out ! c"
  proof (cases "truthy m")
    case True
    then have "out = map h crys" "out' = map h crys'" using oa ob h by auto
    then show ?thesis using row assms(9) lo lc by simp
  next
    case False
    then have "out = crys" "out' = crys'" using oa ob by auto
    then show ?thesis using row by simp
  qed
  then show ?thesis using lo lo' lc by simp
qed

lemma const_gate_rowwise: "const_gate c = rowwise (\<lambda>r. c)"
  by (rule ext) (simp add: const_gate_def rowwise_def)

lemma example_net_eval_mode: "eval_mode (CompositionNet_eval (example_net out_nn))"
  by (simp add: eval_mode_def CompositionNet_eval_def MessageLayer_eval_def BatchNorm1d_eval_def
      example_net_def CompositionNet_init_def)

lemma example_net_rowwise_gates: "rowwise_gates (CompositionNet_eval (example_net out_nn))"
  by (auto simp add: rowwise_gates_def CompositionNet_eval_def MessageLayer_eval_def
      example_net_def CompositionNet_init_def MessageLayer_init_def const_gate_rowwise)

lemma example_net_rowwise_output:
  "rowwise_output (CompositionNet_eval (example_net (Some identity_module)))"
proof -
  have 1: "call identity_module = (\<lambda>x. Inr (map (\<lambda>r. r) x))"
    by (simp add: identity_module_def)
  have 2: "output_nn (CompositionNet_eval (example_net (Some identity_module))) = Some identity_module"
    by (simp add: CompositionNet_eval_def example_net_def CompositionNet_init_def identity_module_def)
  show ?thesis
    unfolding rowwise_output_def using 1 2 by blast
qed

lemmas eval_mode_defs =
  CompositionNet_eval_def MessageLayer_eval_def BatchNorm1d_eval_def

theorem CompositionNet_crystal_isolation_witness:
  "\<exists>out out'.
     CompositionNet_forward (CompositionNet_eval (example_net (Some identity_module)))
        [1, 1] [[9 / 1000], [0]] [[1], [1]] [0, 1] [0, 1] [0, 1] = Inr out \<and>
     CompositionNet_forward (CompositionNet_eval (example_net (Some identity_module)))
        [1, 1] [[9 / 1000], [- 909 / 10000]] [[1], [1]] [0, 1] [0, 1] [0, 1] = Inr out' \<and>
     0 < length out \<and> length out' = length out \<and> out' ! 0 = out ! 0"
proof -
  let ?net = "CompositionNet_eval (example_net (Some identity_module))"
  have "\<exists>out. CompositionNet_forward ?net
        [1, 1] [[9 / 1000], [0]] [[1], [1]] [0, 1] [0, 1] [0, 1] = Inr out \<and> 0 < length out"
    by (simp add: eval_defs eval_mode_defs)
  then obtain out where a: "CompositionNet_forward ?net
        [1, 1] [[9 / 1000], [0]] [[1], [1]] [0, 1] [0, 1] [0, 1] = Inr out" and l: "0 < length out"
    by blast
  have "\<exists>out'. CompositionNet_forward ?net
        [1, 1] [[9 / 1000], [- 909 / 10000]] [[1], [1]] [0, 1] [0, 1] [0, 1] = Inr out'"
    by (simp add: eval_defs eval_mode_defs)
  then obtain out' where b: "CompositionNet_forward ?net
        [1, 1] [[9 / 1000], [- 909 / 10000]] [[1], [1]] [0, 1] [0, 1] [0, 1] = Inr out'"
    by blast
  have nc: "list_all2 (\<lambda>i j. [0, 1 :: nat] ! i = [0, 1] ! j) [0, 1 :: nat] [0, 1]"
    by simp
  have le: "length [[9 / 1000], [- 909 / 10000 :: real]] = length [[9 / 1000], [0 :: real]]"
    by simp
  have pe: "\<forall>i<length [[9 / 1000], [0 :: real]].
      [0, 1 :: nat] ! i = 0 \<longrightarrow> [[9 / 1000], [- 909 / 10000 :: real]] ! i = [[9 / 1000], [0]] ! i"
    by (simp add: less_Suc_eq)
  have "length out' = length out \<and> out' ! 0 = out ! 0"
    using example_net_eval_mode example_net_rowwise_gates example_net_rowwise_output nc le pe a b l
    by (rule CompositionNet_crystal_isolation)
  with a b l show ?thesis by blast
qed

end
